theory Spec2Isabelle
  imports Main "HOL-Library.Char_ord" "HOL-Library.List_Lexorder"
begin

section \<open>Error kinds of the library (bdb.h)\<close>

text \<open>
  The library reports every failure by throwing \<open>bdb::exception\<close>, which carries one of
  four integer codes. An operation of the model returns \<open>Inl\<close> of the kind thrown, or
  \<open>Inr\<close> of its result.
\<close>

datatype bdb_error =
    BDB_ERROR_UNKNOWN
  | BDB_ERROR_NOT_FOUND
  | BDB_ERROR_EXISTS
  | BDB_ERROR_FOREIGN_KEY

fun error_code :: "bdb_error \<Rightarrow> int" where
  "error_code BDB_ERROR_UNKNOWN = 1"
| "error_code BDB_ERROR_NOT_FOUND = 2"
| "error_code BDB_ERROR_EXISTS = 3"
| "error_code BDB_ERROR_FOREIGN_KEY = 4"

section \<open>The storage engine\<close>

text \<open>
  Modelled from the spec: the storage engine (Berkeley DB, reached through \<open>db.h\<close>) is not
  part of the repository; the library only calls it and branches on the status it
  returns. This section is a reference model of the engine calls the library makes,
  following the spec's description of tables, indexes, cursors, joins, transactions and
  sequences. A status of 0 is success. The numeric values of the status macros come from
  the engine's and the C library's headers; the library only compares against them, so
  only their being distinct and non-zero matters.
\<close>

definition EINVAL :: int where "EINVAL = 22"
definition ENOENT :: int where "ENOENT = 2"
definition EEXIST :: int where "EEXIST = 17"
definition DB_FOREIGN_CONFLICT :: int where "DB_FOREIGN_CONFLICT = - 30997"
definition DB_KEYEXIST :: int where "DB_KEYEXIST = - 30995"
definition DB_NOTFOUND :: int where "DB_NOTFOUND = - 30988"

type_synonym bytes = string
type_synonym DB_TXN = nat

text \<open>
  An index callback maps a primary key and its data to the derived key, or signals that
  the record has no entry in the index (\<open>None\<close>).
\<close>

type_synonym index_callback = "bytes \<Rightarrow> bytes \<Rightarrow> bytes option"

record secondary =
  s_callback :: index_callback
  s_unique :: bool
  s_foreign :: "nat option"

record DB =
  recs :: "(bytes \<times> bytes) list"
  secs :: "secondary list"

text \<open>
  A handle names a primary store, or the i-th secondary index associated with one.
\<close>

datatype DBH = Primary nat | Secondary nat nat

text \<open>
  The engine's state. What a home directory holds: the content of every store, the
  sequence records, and whether the store of the sequences exists there. What is known
  of transactions: the transactions that are open, the innermost first, each with what
  the directory held when it began; the number of transaction handles issued; and the
  log of finalized transactions (\<open>True\<close> for a commit, \<open>False\<close> for an abort). And a script
  of failures: each engine call takes the next entry of the script, and fails with it
  when it is not 0 (an I/O error, a deadlock, an exhausted resource). With an empty
  script the engine never fails on its own.
\<close>

type_synonym stores = "(nat \<Rightarrow> DB) \<times> (bytes \<times> int) list \<times> bool"

record engine =
  dbs :: "nat \<Rightarrow> DB"
  seqs :: "(bytes \<times> int) list"
  finalized :: "(DB_TXN \<times> bool) list"
  faults :: "int list"
  env_home :: string
  seq_store :: bool
  begun :: "(DB_TXN \<times> stores) list"
  issued :: nat

definition next_fault :: "engine \<Rightarrow> int \<times> engine" where
  "next_fault e = (case faults e of [] \<Rightarrow> (0, e) | f # fs \<Rightarrow> (f, e\<lparr>faults := fs\<rparr>))"

text \<open>
  Modelled from the spec: the engine's primary store. Records are kept in key order
  (bytewise, the engine's order when no comparison callback intervenes); writing an
  existing key replaces its data in place.
\<close>

fun store_put :: "bytes \<Rightarrow> 'v \<Rightarrow> (bytes \<times> 'v) list \<Rightarrow> (bytes \<times> 'v) list" where
  "store_put k d [] = [(k, d)]"
| "store_put k d ((k', d') # xs) =
     (if k = k' then (k, d) # xs
      else if k < k' then (k, d) # (k', d') # xs
      else (k', d') # store_put k d xs)"

text \<open>
  Modelled from the spec: the engine's secondary index. Its entries are derived from
  the primary records: one entry
  (derived key, primary key, primary data) for each record the callback does not skip,
  in the order of the derived keys and, among equal ones, of the primary keys.
\<close>

definition sec_entries :: "secondary \<Rightarrow> (bytes \<times> bytes) list \<Rightarrow> (bytes \<times> bytes \<times> bytes) list" where
  "sec_entries s rs =
     sort_key fst
       (List.map_filter (\<lambda>(pk, pd). map_option (\<lambda>sk. (sk, pk, pd)) (s_callback s pk pd)) rs)"

text \<open>
  Modelled from the spec: what an engine handle gives access to, as entries (key,
  primary key, primary data); a handle of an index that was never associated gives
  nothing. \<open>db_exists\<close> and \<open>db_get\<close> are the engine's probe and read of a key.
\<close>

definition db_content :: "engine \<Rightarrow> DBH \<Rightarrow> (bytes \<times> bytes \<times> bytes) list option" where
  "db_content e h =
     (case h of
        Primary p \<Rightarrow> Some (map (\<lambda>(k, d). (k, k, d)) (recs (dbs e p)))
      | Secondary p i \<Rightarrow>
          (if i < length (secs (dbs e p))
           then Some (sec_entries (secs (dbs e p) ! i) (recs (dbs e p)))
           else None))"

definition db_exists :: "DBH \<Rightarrow> DB_TXN \<Rightarrow> bytes \<Rightarrow> engine \<Rightarrow> int \<times> engine" where
  "db_exists h txn k e =
     (case next_fault e of (f, e1) \<Rightarrow>
        if f \<noteq> 0 then (f, e1)
        else (case db_content e1 h of
                None \<Rightarrow> (EINVAL, e1)
              | Some es \<Rightarrow> (case map_of es k of None \<Rightarrow> (DB_NOTFOUND, e1) | Some v \<Rightarrow> (0, e1))))"

definition db_get :: "DBH \<Rightarrow> DB_TXN \<Rightarrow> bytes \<Rightarrow> engine \<Rightarrow> (int \<times> bytes) \<times> engine" where
  "db_get h txn k e =
     (case next_fault e of (f, e1) \<Rightarrow>
        if f \<noteq> 0 then ((f, []), e1)
        else (case db_content e1 h of
                None \<Rightarrow> ((EINVAL, []), e1)
              | Some es \<Rightarrow>
                  (case map_of es k of
                     None \<Rightarrow> ((DB_NOTFOUND, []), e1)
                   | Some (pk, pd) \<Rightarrow> ((0, pd), e1))))"

text \<open>
  Modelled from the spec: the engine's put. A write to a primary store first brings
  every associated index up to date: for each index whose callback yields a derived
  key, a foreign constraint requires that key in the master store, and an index of
  unique keys refuses a derived key that it already holds for another primary key. The
  engine visits the indexes of a store starting from the one associated last, and the
  first index that refuses decides the status: the library's test 21 inserts a record
  whose season is missing from the master table and whose ordinal number is taken, into
  a table whose index on the season was associated first and whose unique index on the
  ordinal number last, and expects AlreadyExists. \<open>put_secondaries\<close> takes the indexes in
  the order of the visit. A write that is refused changes nothing: in the words of the
  spec, a mutating call either fully succeeds or leaves no partially-applied state.
\<close>

definition foreign_rejects :: "engine \<Rightarrow> secondary \<Rightarrow> bytes \<Rightarrow> bytes \<Rightarrow> bool" where
  "foreign_rejects e s k d =
     (case s_callback s k d of
        None \<Rightarrow> False
      | Some sk \<Rightarrow>
          (case s_foreign s of None \<Rightarrow> False | Some m \<Rightarrow> map_of (recs (dbs e m)) sk = None))"

definition unique_collides :: "(bytes \<times> bytes) list \<Rightarrow> secondary \<Rightarrow> bytes \<Rightarrow> bytes \<Rightarrow> bool" where
  "unique_collides rs s k d =
     (case s_callback s k d of
        None \<Rightarrow> False
      | Some sk \<Rightarrow>
          s_unique s \<and> list_ex (\<lambda>(sk', pk, pd). sk' = sk \<and> pk \<noteq> k) (sec_entries s rs))"

fun put_secondaries :: "engine \<Rightarrow> (bytes \<times> bytes) list \<Rightarrow> bytes \<Rightarrow> bytes \<Rightarrow> secondary list \<Rightarrow> int" where
  "put_secondaries e rs k d [] = 0"
| "put_secondaries e rs k d (s # ss) =
     (if foreign_rejects e s k d then DB_FOREIGN_CONFLICT
      else if unique_collides rs s k d then EINVAL
      else put_secondaries e rs k d ss)"

datatype put_flag = DB_NOOVERWRITE | DB_OVERWRITE

definition db_put :: "DBH \<Rightarrow> DB_TXN \<Rightarrow> bytes \<Rightarrow> bytes \<Rightarrow> put_flag \<Rightarrow> engine \<Rightarrow> int \<times> engine" where
  "db_put h txn k d flag e =
     (case next_fault e of (f, e1) \<Rightarrow>
        if f \<noteq> 0 then (f, e1)
        else (case h of
                Secondary p i \<Rightarrow> (EINVAL, e1)
              | Primary p \<Rightarrow>
                  (let t = dbs e1 p in
                   if flag = DB_NOOVERWRITE \<and> map_of (recs t) k \<noteq> None then (DB_KEYEXIST, e1)
                   else (case put_secondaries e1 (recs t) k d (rev (secs t)) of res \<Rightarrow>
                           if res \<noteq> 0 then (res, e1)
                           else (0, e1\<lparr>dbs := (dbs e1)(p := t\<lparr>recs := store_put k d (recs t)\<rparr>)\<rparr>)))))"

subsection \<open>Cursors and joins\<close>

text \<open>
  Modelled from the spec: the engine's cursors. A cursor stands on a handle, at an entry
  of its content or nowhere yet. A join cursor
  belongs to a primary store; it keeps, for each index cursor it was made from, the
  index and the key that cursor stood on, and the number of records it has returned.
\<close>

datatype DBC =
    Cursor DBH "nat option"
  | JoinCursor nat "(nat \<times> bytes option) list" nat

datatype cflag = DB_FIRST | DB_NEXT | DB_SET | DB_NEXT_DUP | DB_NOFLAGS

datatype 'a move = Miss int | Hit nat 'a

fun key_find :: "bytes \<Rightarrow> (bytes \<times> 'a) list \<Rightarrow> (nat \<times> (bytes \<times> 'a)) option" where
  "key_find k [] = None"
| "key_find k (x # xs) =
     (if fst x = k then Some (0, x)
      else map_option (\<lambda>(i, y). (Suc i, y)) (key_find k xs))"

text \<open>
  Modelled from the spec: the engine's cursor moves. Moving a cursor over the entries
  \<open>es\<close> from position \<open>pos\<close>: to the first entry, to
  the next one (the first, for a cursor that stands nowhere), to the first entry with a
  given key, or to the next entry if it has the key of the current one. A move that
  fails leaves the cursor where it was.
\<close>

definition seek :: "cflag \<Rightarrow> bytes \<Rightarrow> (bytes \<times> 'a) list \<Rightarrow> nat option \<Rightarrow> (bytes \<times> 'a) move" where
  "seek flag k es pos =
     (case flag of
        DB_FIRST \<Rightarrow> (case es of [] \<Rightarrow> Miss DB_NOTFOUND | x # xs \<Rightarrow> Hit 0 x)
      | DB_NEXT \<Rightarrow>
          (case pos of
             None \<Rightarrow> (case es of [] \<Rightarrow> Miss DB_NOTFOUND | x # xs \<Rightarrow> Hit 0 x)
           | Some i \<Rightarrow> (case drop (Suc i) es of [] \<Rightarrow> Miss DB_NOTFOUND | x # xs \<Rightarrow> Hit (Suc i) x))
      | DB_SET \<Rightarrow> (case key_find k es of None \<Rightarrow> Miss DB_NOTFOUND | Some (i, x) \<Rightarrow> Hit i x)
      | DB_NEXT_DUP \<Rightarrow>
          (case pos of
             None \<Rightarrow> Miss EINVAL
           | Some i \<Rightarrow>
               (case drop i es of
                  [] \<Rightarrow> Miss DB_NOTFOUND
                | cur # rest \<Rightarrow>
                    (case rest of
                       [] \<Rightarrow> Miss DB_NOTFOUND
                     | x # xs \<Rightarrow> if fst x = fst cur then Hit (Suc i) x else Miss DB_NOTFOUND)))
      | DB_NOFLAGS \<Rightarrow> Miss EINVAL)"

definition db_cursor :: "DBH \<Rightarrow> DB_TXN \<Rightarrow> engine \<Rightarrow> (int \<times> DBC) \<times> engine" where
  "db_cursor h txn e =
     (case next_fault e of (f, e1) \<Rightarrow>
        if f \<noteq> 0 then ((f, Cursor h None), e1)
        else (case db_content e1 h of
                None \<Rightarrow> ((EINVAL, Cursor h None), e1)
              | Some es \<Rightarrow> ((0, Cursor h None), e1)))"

text \<open>
  Modelled from the spec: the engine's join. A primary record belongs to a join when,
  for every index cursor of the join, the index derives from the record the key that
  cursor stood on.
\<close>

definition join_match :: "secondary list \<Rightarrow> (nat \<times> bytes option) list \<Rightarrow> bytes \<Rightarrow> bytes \<Rightarrow> bool" where
  "join_match ss crit pk pd =
     list_all (\<lambda>(i, sko). i < length ss \<and> sko \<noteq> None \<and> s_callback (ss ! i) pk pd = sko) crit"

text \<open>
  Modelled from the spec: the engine's cursor reads. \<open>c_get\<close> returns a status, the key
  and the primary data of the entry reached, and the cursor; \<open>c_pget\<close>, for cursors of
  an index, returns the primary key as well. A join cursor returns, one after the
  other, the primary records that belong to the join.
\<close>

definition c_get :: "DBC \<Rightarrow> bytes \<Rightarrow> cflag \<Rightarrow> engine \<Rightarrow> (int \<times> bytes \<times> bytes \<times> DBC) \<times> engine" where
  "c_get c k flag e =
     (case next_fault e of (f, e1) \<Rightarrow>
        if f \<noteq> 0 then ((f, [], [], c), e1)
        else (case c of
                Cursor h pos \<Rightarrow>
                  (case db_content e1 h of
                     None \<Rightarrow> ((EINVAL, [], [], c), e1)
                   | Some es \<Rightarrow>
                       (case seek flag k es pos of
                          Miss r \<Rightarrow> ((r, [], [], c), e1)
                        | Hit i x \<Rightarrow> ((0, fst x, snd (snd x), Cursor h (Some i)), e1)))
              | JoinCursor p crit n \<Rightarrow>
                  (if flag \<noteq> DB_NOFLAGS then ((EINVAL, [], [], c), e1)
                   else (case drop n (filter (\<lambda>(pk, pd). join_match (secs (dbs e1 p)) crit pk pd)
                                       (recs (dbs e1 p))) of
                           [] \<Rightarrow> ((DB_NOTFOUND, [], [], c), e1)
                         | x # xs \<Rightarrow> ((0, fst x, snd x, JoinCursor p crit (Suc n)), e1)))))"

definition c_pget ::
  "DBC \<Rightarrow> bytes \<Rightarrow> cflag \<Rightarrow> engine \<Rightarrow> (int \<times> bytes \<times> bytes \<times> bytes \<times> DBC) \<times> engine" where
  "c_pget c k flag e =
     (case next_fault e of (f, e1) \<Rightarrow>
        if f \<noteq> 0 then ((f, [], [], [], c), e1)
        else (case c of
                Cursor h pos \<Rightarrow>
                  (case h of
                     Primary p \<Rightarrow> ((EINVAL, [], [], [], c), e1)
                   | Secondary p i \<Rightarrow>
                       (case db_content e1 h of
                          None \<Rightarrow> ((EINVAL, [], [], [], c), e1)
                        | Some es \<Rightarrow>
                            (case seek flag k es pos of
                               Miss r \<Rightarrow> ((r, [], [], [], c), e1)
                             | Hit j x \<Rightarrow>
                                 ((0, fst x, fst (snd x), snd (snd x), Cursor h (Some j)), e1))))
              | JoinCursor p crit n \<Rightarrow> ((EINVAL, [], [], [], c), e1)))"

text \<open>
  Modelled from the spec: the engine's creation of a join cursor, from a list of cursors
  of indexes of the primary store. Each contributes the number of its index and the key
  it stands on. The cursors of the list are read when the join is created and are not
  moved by the join.
\<close>

definition cursor_key :: "engine \<Rightarrow> DBH \<Rightarrow> nat option \<Rightarrow> bytes option" where
  "cursor_key e h pos =
     (case pos of
        None \<Rightarrow> None
      | Some n \<Rightarrow>
          (case db_content e h of
             None \<Rightarrow> None
           | Some es \<Rightarrow> (case drop n es of [] \<Rightarrow> None | x # xs \<Rightarrow> Some (fst x))))"

fun join_criterion :: "engine \<Rightarrow> nat \<Rightarrow> DBC \<Rightarrow> (nat \<times> bytes option) option" where
  "join_criterion e p (Cursor (Secondary q i) pos) =
     (if q = p then Some (i, cursor_key e (Secondary q i) pos) else None)"
| "join_criterion e p (Cursor (Primary q) pos) = None"
| "join_criterion e p (JoinCursor q crit n) = None"

definition db_join :: "DBH \<Rightarrow> DBC list \<Rightarrow> engine \<Rightarrow> (int \<times> DBC) \<times> engine" where
  "db_join h curslist e =
     (case next_fault e of (f, e1) \<Rightarrow>
        if f \<noteq> 0 then ((f, JoinCursor 0 [] 0), e1)
        else (case h of
                Secondary p i \<Rightarrow> ((EINVAL, JoinCursor 0 [] 0), e1)
              | Primary p \<Rightarrow>
                  (if curslist = [] \<or> list_ex (\<lambda>c. join_criterion e1 p c = None) curslist
                   then ((EINVAL, JoinCursor 0 [] 0), e1)
                   else ((0, JoinCursor p (List.map_filter (join_criterion e1 p) curslist) 0), e1))))"

subsection \<open>Transactions\<close>


definition restore :: "stores \<Rightarrow> engine \<Rightarrow> engine" where
  "restore st e = (case st of (d, q, m) \<Rightarrow> e\<lparr>dbs := d, seqs := q, seq_store := m\<rparr>)"

fun txn_split :: "DB_TXN \<Rightarrow> (DB_TXN \<times> stores) list \<Rightarrow> ((DB_TXN \<times> stores) list \<times> stores) option" where
  "txn_split txn [] = None"
| "txn_split txn (b # bs) = (if fst b = txn then Some (bs, snd b) else txn_split txn bs)"


definition txn_commit :: "DB_TXN \<Rightarrow> engine \<Rightarrow> int \<times> engine" where
  "txn_commit txn e =
     (case next_fault e of (f, e1) \<Rightarrow>
        if f \<noteq> 0 then (f, e1)
        else (0, (case txn_split txn (begun e1) of
                    None \<Rightarrow> e1
                  | Some (outer, st) \<Rightarrow> e1\<lparr>begun := outer\<rparr>)
                 \<lparr>finalized := (txn, True) # finalized e1\<rparr>))"

definition txn_abort :: "DB_TXN \<Rightarrow> engine \<Rightarrow> int \<times> engine" where
  "txn_abort txn e =
     (case next_fault e of (f, e1) \<Rightarrow>
        if f \<noteq> 0 then (f, e1)
        else (0, (case txn_split txn (begun e1) of
                    None \<Rightarrow> e1
                  | Some (outer, st) \<Rightarrow> (restore st e1)\<lparr>begun := outer\<rparr>)
                 \<lparr>finalized := (txn, False) # finalized e1\<rparr>))"

subsection \<open>Environments\<close>








subsection \<open>Sequences\<close>

text \<open>
  Modelled from the spec: the engine's sequences. A sequence handle is configured before
  it is opened: the direction, the number of
  values a handle may reserve ahead (the cache size) and the value a newly created
  sequence starts from. The record of an open sequence holds the next value to hand
  out; a request under a transaction is refused for a handle that caches values, so
  every value handed out has been written to the record. Creating a sequence and
  drawing a value are writes of the transaction they are made under, and are undone
  with it. Values stay in the range of a signed 64-bit integer.
\<close>

record DB_SEQUENCE =
  sq_inc :: bool
  sq_cachesize :: int
  sq_initial :: int
  sq_key :: "bytes option"









section \<open>Marshaling between the engine and messages (bdb.cc)\<close>

text \<open>
  Keys and data are structured messages of an external serialization library; the
  library needs of a message type only that it writes itself to a byte string and
  parses itself from one. Parsing clears the message first, so the message parsed
  depends on the bytes only; \<open>unserialize\<close> overwrites its output argument with it.
\<close>

record 'm codec =
  SerializeToString :: "'m \<Rightarrow> bytes"
  ParseFromString :: "bytes \<Rightarrow> 'm"

definition serialize :: "'m codec \<Rightarrow> 'm \<Rightarrow> bytes" where
  "serialize c msg = SerializeToString c msg"

definition unserialize :: "'m codec \<Rightarrow> bytes \<Rightarrow> 'm \<Rightarrow> 'm" where
  "unserialize c dbt msg = ParseFromString c dbt"

section \<open>Databases and tables (database.cc, table.cc, index.cc)\<close>

text \<open>
  A database keeps the stack of its nested transactions, the innermost first, and the
  sequences and tables that were added to it; every operation of a table or a sequence
  runs under the transaction on top. The constructor pushes the top-level transaction,
  so the stack of an open database is never empty. A table or an index is the handle
  of its store in the engine, and a table keeps the handles of its indexes; the
  operations of a table serialize their arguments, make one or two calls of the engine
  and translate the status returned into an exception. The handles of the environment
  and of the store of the sequences are not NULL in a database that was constructed,
  and are not fields of the model.
\<close>

record table =
  m_name :: string
  m_db :: DBH
  m_indexes :: "DBH list"

record sequence =
  m_seq :: DB_SEQUENCE

record database =
  m_home :: string
  m_txns :: "DB_TXN list"
  m_sequences :: "sequence list"
  m_tables :: "table list"

definition stack_top :: "'a list \<Rightarrow> 'a" where
  "stack_top s = hd s"

definition stack_pop :: "'a list \<Rightarrow> 'a list" where
  "stack_pop s = tl s"

definition table_exists :: "'k codec \<Rightarrow> database \<Rightarrow> table \<Rightarrow> 'k \<Rightarrow> engine \<Rightarrow> (bdb_error + bool) \<times> engine" where
  "table_exists kc db t key e =
     (let k = serialize kc key in
      case db_exists (m_db t) (stack_top (m_txns db)) k e of (res, e') \<Rightarrow>
        (Inr (res = 0), e'))"

definition index_exists :: "'k codec \<Rightarrow> database \<Rightarrow> table \<Rightarrow> 'k \<Rightarrow> engine \<Rightarrow> (bdb_error + bool) \<times> engine" where
  "index_exists kc db idx key e = table_exists kc db idx key e"

definition table_insert ::
  "'k codec \<Rightarrow> 'd codec \<Rightarrow> database \<Rightarrow> table \<Rightarrow> 'k \<Rightarrow> 'd \<Rightarrow> engine \<Rightarrow> (bdb_error + unit) \<times> engine" where
  "table_insert kc dc db t key data e =
     (let k = serialize kc key; d = serialize dc data in
      case db_put (m_db t) (stack_top (m_txns db)) k d DB_NOOVERWRITE e of (res, e') \<Rightarrow>
        if res \<noteq> 0 then
          (if res = EINVAL then (Inl BDB_ERROR_EXISTS, e')
           else if res = DB_KEYEXIST then (Inl BDB_ERROR_EXISTS, e')
           else if res = DB_FOREIGN_CONFLICT then (Inl BDB_ERROR_FOREIGN_KEY, e')
           else (Inl BDB_ERROR_UNKNOWN, e'))
        else (Inr (), e'))"

definition table_update ::
  "'k codec \<Rightarrow> 'd codec \<Rightarrow> database \<Rightarrow> table \<Rightarrow> 'k \<Rightarrow> 'd \<Rightarrow> engine \<Rightarrow> (bdb_error + unit) \<times> engine" where
  "table_update kc dc db t key data e =
     (let k = serialize kc key; d = serialize dc data in
      case db_exists (m_db t) (stack_top (m_txns db)) k e of (res, e1) \<Rightarrow>
        if res \<noteq> 0 then (Inl BDB_ERROR_NOT_FOUND, e1)
        else
          (case db_put (m_db t) (stack_top (m_txns db)) k d DB_OVERWRITE e1 of (res2, e2) \<Rightarrow>
             if res2 \<noteq> 0 then
               (if res2 = DB_FOREIGN_CONFLICT then (Inl BDB_ERROR_FOREIGN_KEY, e2)
                else (Inl BDB_ERROR_UNKNOWN, e2))
             else (Inr (), e2)))"

definition table_select ::
  "'k codec \<Rightarrow> 'd codec \<Rightarrow> database \<Rightarrow> table \<Rightarrow> 'k \<Rightarrow> 'd \<Rightarrow> engine \<Rightarrow> (bdb_error + 'd) \<times> engine" where
  "table_select kc dc db t key data e =
     (let k = serialize kc key in
      case db_get (m_db t) (stack_top (m_txns db)) k e of ((res, d), e') \<Rightarrow>
        if res \<noteq> 0 then
          (if res = DB_NOTFOUND then (Inl BDB_ERROR_NOT_FOUND, e')
           else (Inl BDB_ERROR_UNKNOWN, e'))
        else (Inr (unserialize dc d data), e'))"

text \<open>
  Committing and rolling back (database.cc): with only the top-level transaction on
  the stack there is nothing to finalize; otherwise the transaction on top is popped
  and handed to the engine. Both take a lock on a mutex that is local to the call, which
  excludes nothing and is left out, as are the log messages.
\<close>

definition commit_transaction :: "database \<Rightarrow> engine \<Rightarrow> (bdb_error + unit) \<times> database \<times> engine" where
  "commit_transaction db e =
     (if length (m_txns db) = 1 then (Inl BDB_ERROR_NOT_FOUND, db, e)
      else
        (let txn = stack_top (m_txns db);
             db' = db\<lparr>m_txns := stack_pop (m_txns db)\<rparr>
         in case txn_commit txn e of (res, e') \<Rightarrow>
              if res \<noteq> 0 then (Inl BDB_ERROR_UNKNOWN, db', e') else (Inr (), db', e')))"

definition rollback_transaction :: "database \<Rightarrow> engine \<Rightarrow> (bdb_error + unit) \<times> database \<times> engine" where
  "rollback_transaction db e =
     (if length (m_txns db) = 1 then (Inl BDB_ERROR_NOT_FOUND, db, e)
      else
        (let txn = stack_top (m_txns db);
             db' = db\<lparr>m_txns := stack_pop (m_txns db)\<rparr>
         in case txn_abort txn e of (res, e') \<Rightarrow>
              if res \<noteq> 0 then (Inl BDB_ERROR_UNKNOWN, db', e') else (Inr (), db', e')))"


section \<open>Sequences (sequence.cc)\<close>






section \<open>Opening and closing a database (database.cc, table.cc)\<close>









section \<open>Recordsets (recordset.cc)\<close>

definition BDB_RS_TABLE :: int where "BDB_RS_TABLE = 1"
definition BDB_RS_DUPLICATES :: int where "BDB_RS_DUPLICATES = 2"
definition BDB_RS_UNIQUE :: int where "BDB_RS_UNIQUE = 3"
definition BDB_RS_JOIN :: int where "BDB_RS_JOIN = 4"

record recordset =
  m_cursor :: DBC
  m_key :: "bytes option"
  m_type :: int
  m_isset :: bool

text \<open>
  A recordset holds a cursor of the engine, the serialized search key if it is filtered
  by one, its type and the flag \<open>m_isset\<close>, which tells whether the cursor has been
  positioned. The first three constructors open a cursor on the table or index under
  the transaction on top. Closing a cursor and releasing the memory of a key change
  nothing a later call can observe and are left out.
\<close>

definition recordset_table :: "database \<Rightarrow> table \<Rightarrow> engine \<Rightarrow> (bdb_error + recordset) \<times> engine" where
  "recordset_table db tbl e =
     (case db_cursor (m_db tbl) (stack_top (m_txns db)) e of ((res, c), e') \<Rightarrow>
        if res \<noteq> 0 then (Inl BDB_ERROR_UNKNOWN, e')
        else (Inr \<lparr>m_cursor = c, m_key = None, m_type = BDB_RS_TABLE, m_isset = False\<rparr>, e'))"

definition recordset_index :: "database \<Rightarrow> table \<Rightarrow> engine \<Rightarrow> (bdb_error + recordset) \<times> engine" where
  "recordset_index db idx e =
     (case db_cursor (m_db idx) (stack_top (m_txns db)) e of ((res, c), e') \<Rightarrow>
        if res \<noteq> 0 then (Inl BDB_ERROR_UNKNOWN, e')
        else (Inr \<lparr>m_cursor = c, m_key = None, m_type = BDB_RS_DUPLICATES, m_isset = False\<rparr>, e'))"

definition recordset_index_key ::
  "'k codec \<Rightarrow> database \<Rightarrow> table \<Rightarrow> 'k \<Rightarrow> engine \<Rightarrow> (bdb_error + recordset) \<times> engine" where
  "recordset_index_key kc db idx key e =
     (case db_cursor (m_db idx) (stack_top (m_txns db)) e of ((res, c), e') \<Rightarrow>
        if res \<noteq> 0 then (Inl BDB_ERROR_UNKNOWN, e')
        else (Inr \<lparr>m_cursor = c, m_key = Some (serialize kc key), m_type = BDB_RS_UNIQUE,
                    m_isset = False\<rparr>, e'))"

text \<open>
  The join list holds pointers to recordsets the caller owns, so the recordsets live in
  a store of objects and the list holds their addresses. The loop of the join
  constructor visits the list in order: a member without a search key ends the
  construction with an exception; otherwise the member's cursor is sent to its key, a
  success marks the member as set, and a failure marks the join as not set.
\<close>

type_synonym heap = "nat \<Rightarrow> recordset"

fun join_loop :: "nat list \<Rightarrow> bool \<Rightarrow> heap \<Rightarrow> engine \<Rightarrow> (bdb_error + bool) \<times> heap \<times> engine" where
  "join_loop [] isset hp e = (Inr isset, hp, e)"
| "join_loop (p # ps) isset hp e =
     (case m_key (hp p) of
        None \<Rightarrow> (Inl BDB_ERROR_UNKNOWN, hp, e)
      | Some mk \<Rightarrow>
          (case c_pget (m_cursor (hp p)) mk DB_SET e of ((res, sk, k, d, c'), e') \<Rightarrow>
             if res = 0
             then join_loop ps isset (hp(p := (hp p)\<lparr>m_cursor := c', m_isset := True\<rparr>)) e'
             else join_loop ps False (hp(p := (hp p)\<lparr>m_cursor := c'\<rparr>)) e'))"

definition recordset_join :: "table \<Rightarrow> nat list \<Rightarrow> heap \<Rightarrow> engine \<Rightarrow> (bdb_error + recordset) \<times> heap \<times> engine" where
  "recordset_join tbl lst hp e =
     (case join_loop lst True hp e of (r, hp', e') \<Rightarrow>
        (case r of
           Inl err \<Rightarrow> (Inl err, hp', e')
         | Inr isset \<Rightarrow>
             (case db_join (m_db tbl) (map (\<lambda>p. m_cursor (hp' p)) lst) e' of ((res, c), e'') \<Rightarrow>
                if res \<noteq> 0 then (Inl BDB_ERROR_UNKNOWN, hp', e'')
                else (Inr \<lparr>m_cursor = c, m_key = None, m_type = BDB_RS_JOIN, m_isset = isset\<rparr>,
                      hp', e''))))"

text \<open>
  \<open>fetch\<close> asks the engine for the next entry, in the way the type of the recordset
  prescribes, and reports any status but success as "no more records". A recordset
  filtered by a key always has one (its constructor stores it); a record value of that
  type without a key, which no constructor builds, is given the engine's status for an
  invalid argument.
\<close>

definition fetch_status :: "recordset \<Rightarrow> engine \<Rightarrow> (bdb_error + (int \<times> bytes \<times> bytes \<times> DBC)) \<times> engine" where
  "fetch_status rs e =
     (if m_type rs = BDB_RS_TABLE then
        (case c_get (m_cursor rs) [] (if \<not> m_isset rs then DB_FIRST else DB_NEXT) e of
           (r, e') \<Rightarrow> (Inr r, e'))
      else if m_type rs = BDB_RS_DUPLICATES then
        (case c_pget (m_cursor rs) [] (if \<not> m_isset rs then DB_FIRST else DB_NEXT) e of
           ((res, sk, k, d, c), e') \<Rightarrow> (Inr (res, k, d, c), e'))
      else if m_type rs = BDB_RS_UNIQUE then
        (case m_key rs of
           None \<Rightarrow> (Inr (EINVAL, [], [], m_cursor rs), e)
         | Some mk \<Rightarrow>
             (case c_pget (m_cursor rs) mk (if \<not> m_isset rs then DB_SET else DB_NEXT_DUP) e of
                ((res, sk, k, d, c), e') \<Rightarrow> (Inr (res, k, d, c), e')))
      else if m_type rs = BDB_RS_JOIN then
        (if m_isset rs then (case c_get (m_cursor rs) [] DB_NOFLAGS e of (r, e') \<Rightarrow> (Inr r, e'))
         else (Inr (DB_NOTFOUND, [], [], m_cursor rs), e))
      else (Inl BDB_ERROR_UNKNOWN, e))"

definition recordset_fetch ::
  "'k codec \<Rightarrow> 'd codec \<Rightarrow> recordset \<Rightarrow> 'k \<Rightarrow> 'd \<Rightarrow> engine
    \<Rightarrow> (bdb_error + (bool \<times> 'k \<times> 'd)) \<times> recordset \<times> engine" where
  "recordset_fetch kc dc rs key data e =
     (case fetch_status rs e of (r, e') \<Rightarrow>
        (case r of
           Inl err \<Rightarrow> (Inl err, rs, e')
         | Inr (res, k, d, c) \<Rightarrow>
             if res = 0
             then (Inr (True, unserialize kc k key, unserialize dc d data),
                   rs\<lparr>m_cursor := c, m_isset := True\<rparr>, e')
             else (Inr (False, key, data), rs\<lparr>m_cursor := c\<rparr>, e')))"

definition recordset_rewind :: "recordset \<Rightarrow> bdb_error + recordset" where
  "recordset_rewind rs =
     (if m_type rs = BDB_RS_JOIN then Inl BDB_ERROR_UNKNOWN
      else Inr (rs\<lparr>m_isset := False\<rparr>))"

text \<open>
  What the four constructors establish and \<open>fetch\<close> and \<open>rewind\<close> keep: a recordset
  holds a search key exactly when it is of the type filtered by a key.
\<close>

definition recordset_inv :: "recordset \<Rightarrow> bool" where
  "recordset_inv rs \<longleftrightarrow> (m_key rs \<noteq> None) = (m_type rs = BDB_RS_UNIQUE)"

text \<open>
  Reading a recordset to its end, as a client's loop \<open>while (rs->fetch(&key, &data))\<close>
  does, for at most \<open>n\<close> rounds: the records fetched, in order, and whether the loop
  ended because a fetch returned false.
\<close>

fun fetch_loop ::
  "nat \<Rightarrow> 'k codec \<Rightarrow> 'd codec \<Rightarrow> recordset \<Rightarrow> 'k \<Rightarrow> 'd \<Rightarrow> engine
    \<Rightarrow> (('k \<times> 'd) list \<times> bool) \<times> recordset \<times> engine" where
  "fetch_loop 0 kc dc rs key data e = (([], False), rs, e)"
| "fetch_loop (Suc n) kc dc rs key data e =
     (case recordset_fetch kc dc rs key data e of (r, rs', e') \<Rightarrow>
        (case r of
           Inl err \<Rightarrow> (([], False), rs', e')
         | Inr (got, key', data') \<Rightarrow>
             if got
             then (case fetch_loop n kc dc rs' key' data' e' of ((xs, fin), rs'', e'') \<Rightarrow>
                     (((key', data') # xs, fin), rs'', e''))
             else (([], True), rs', e')))"

text \<open>
  A recordset of an index of the primary store \<open>P\<close>, filtered by a single key: what the
  constructor taking an index and a key builds, at any stage of its reading.
\<close>

definition index_key_of :: "engine \<Rightarrow> nat \<Rightarrow> recordset \<Rightarrow> bool" where
  "index_key_of e P rs \<longleftrightarrow>
     m_type rs = BDB_RS_UNIQUE \<and>
     (\<exists>mk i pos. m_key rs = Some mk \<and> m_cursor rs = Cursor (Secondary P i) pos
        \<and> i < length (secs (dbs e P)))"

text \<open>
  The filtered set of such a recordset: the primary records (key and data) of the
  entries of its index that have its search key, in the order of the index. These are
  the records that reading the recordset from its start yields (\<open>single_key_read\<close>
  below).
\<close>

definition filtered_records :: "engine \<Rightarrow> recordset \<Rightarrow> (bytes \<times> bytes) list" where
  "filtered_records e rs =
     (case m_key rs of
        None \<Rightarrow> []
      | Some mk \<Rightarrow>
          (case m_cursor rs of
             JoinCursor p crit n \<Rightarrow> []
           | Cursor h pos \<Rightarrow>
               (case h of
                  Primary p \<Rightarrow> []
                | Secondary p i \<Rightarrow>
                    (case db_content e h of
                       None \<Rightarrow> []
                     | Some es \<Rightarrow> map snd (filter (\<lambda>x. fst x = mk) es)))))"

text \<open>
  The records of the primary store \<open>P\<close> that are in the filtered set of every member of a
  join list, in the order of the store.
\<close>

definition joined_records :: "engine \<Rightarrow> nat \<Rightarrow> heap \<Rightarrow> nat list \<Rightarrow> (bytes \<times> bytes) list" where
  "joined_records e P hp lst =
     filter (\<lambda>r. list_all (\<lambda>p. r \<in> set (filtered_records e (hp p))) lst) (recs (dbs e P))"

text \<open>
  What one round of the join constructor's loop makes of a member on an engine that
  does not fail: if the member's index has an entry with its key, the cursor stands on
  the first such entry and the member is marked as set; otherwise it is as before.
\<close>

definition settle :: "engine \<Rightarrow> recordset \<Rightarrow> recordset" where
  "settle e rs =
     (case m_key rs of
        None \<Rightarrow> rs
      | Some mk \<Rightarrow>
          (case m_cursor rs of
             JoinCursor p crit n \<Rightarrow> rs
           | Cursor h pos \<Rightarrow>
               (case h of
                  Primary p \<Rightarrow> rs
                | Secondary p i \<Rightarrow>
                    (case db_content e h of
                       None \<Rightarrow> rs
                     | Some es \<Rightarrow>
                         (case key_find mk es of
                            None \<Rightarrow> rs
                          | Some (j, x) \<Rightarrow> rs\<lparr>m_cursor := Cursor h (Some j), m_isset := True\<rparr>)))))"

section \<open>Test data\<close>

text \<open>
  The data of the library's test program, cut down: a table \<open>month\<close> whose data is the
  season, the number of days and the ordinal number of the month, with an index on each
  (the one on the ordinal number unique, the one on the season a foreign key into the
  table \<open>season\<close>). Messages are byte strings that serialize to themselves, the three
  fields separated by commas.
\<close>

definition bytes_codec :: "bytes codec" where
  "bytes_codec = \<lparr>SerializeToString = (\<lambda>m. m), ParseFromString = (\<lambda>b. b)\<rparr>"

fun csv_field :: "nat \<Rightarrow> bytes \<Rightarrow> bytes" where
  "csv_field 0 d = takeWhile (\<lambda>c. c \<noteq> CHR '','') d"
| "csv_field (Suc n) d = csv_field n (drop 1 (dropWhile (\<lambda>c. c \<noteq> CHR '','') d))"

definition season_ix :: secondary where
  "season_ix = \<lparr>s_callback = (\<lambda>k d. Some (csv_field 0 d)), s_unique = False, s_foreign = Some 1\<rparr>"

definition days_ix :: secondary where
  "days_ix = \<lparr>s_callback = (\<lambda>k d. Some (csv_field (Suc 0) d)), s_unique = False, s_foreign = None\<rparr>"

definition ordnum_ix :: secondary where
  "ordnum_ix = \<lparr>s_callback = (\<lambda>k d. Some (csv_field (Suc (Suc 0)) d)), s_unique = True, s_foreign = None\<rparr>"

definition month_db :: DB where
  "month_db = \<lparr>recs = [(''November'', ''Autumn,30,11''), (''October'', ''Autumn,31,10'')],
                secs = [season_ix, days_ix, ordnum_ix]\<rparr>"

definition season_db :: DB where
  "season_db = \<lparr>recs = [(''Autumn'', ''''), (''Winter'', '''')], secs = []\<rparr>"

definition test_engine :: engine where
  "test_engine =
     \<lparr>dbs = (\<lambda>n. if n = 0 then month_db else if n = 1 then season_db else \<lparr>recs = [], secs = []\<rparr>),
      seqs = [], finalized = [], faults = [],
      env_home = ''testdb'', seq_store = True, begun = [], issued = 0\<rparr>"

definition test_db :: database where
  "test_db = \<lparr>m_home = ''testdb'', m_txns = [0], m_sequences = [], m_tables = []\<rparr>"

definition tmonth :: table where
  "tmonth = \<lparr>m_name = ''month'', m_db = Primary 0,
              m_indexes = [Secondary 0 0, Secondary 0 (Suc 0), Secondary 0 2]\<rparr>"

definition tseason :: table where
  "tseason = \<lparr>m_name = ''season'', m_db = Primary 1, m_indexes = []\<rparr>"

text \<open>The C library's status for an input/output error, as an example of a failure of the engine.\<close>

definition EIO :: int where "EIO = 5"

text \<open>
  Recordsets over the table \<open>month\<close> and its indexes: the whole table, the months of
  autumn, the months of 30 days and the months of 32 days; and a store of objects
  holding them at the addresses 0 to 3.
\<close>

definition rs_months :: recordset where
  "rs_months = \<lparr>m_cursor = Cursor (Primary 0) None, m_key = None, m_type = BDB_RS_TABLE,
                 m_isset = False\<rparr>"

definition rs_autumn :: recordset where
  "rs_autumn = \<lparr>m_cursor = Cursor (Secondary 0 0) None, m_key = Some ''Autumn'',
                 m_type = BDB_RS_UNIQUE, m_isset = False\<rparr>"

definition rs_days30 :: recordset where
  "rs_days30 = \<lparr>m_cursor = Cursor (Secondary 0 (Suc 0)) None, m_key = Some ''30'',
                 m_type = BDB_RS_UNIQUE, m_isset = False\<rparr>"

definition rs_days32 :: recordset where
  "rs_days32 = \<lparr>m_cursor = Cursor (Secondary 0 (Suc 0)) None, m_key = Some ''32'',
                 m_type = BDB_RS_UNIQUE, m_isset = False\<rparr>"

text \<open>
  The recordset of the whole table after its three records were fetched, the one of the
  months of 30 days after both were fetched, the one of the whole index of seasons after
  its three entries were fetched, and a join recordset.
\<close>

definition rs_months_read :: recordset where
  "rs_months_read = rs_months\<lparr>m_cursor := Cursor (Primary 0) (Some 2), m_isset := True\<rparr>"

definition rs_days30_read :: recordset where
  "rs_days30_read = rs_days30\<lparr>m_cursor := Cursor (Secondary 0 (Suc 0)) (Some 1), m_isset := True\<rparr>"

definition rs_seasons_read :: recordset where
  "rs_seasons_read = \<lparr>m_cursor = Cursor (Secondary 0 0) (Some 2), m_key = None,
                       m_type = BDB_RS_DUPLICATES, m_isset = True\<rparr>"

definition rs_joined :: recordset where
  "rs_joined = \<lparr>m_cursor = JoinCursor 0 [(0, Some ''Autumn''), (Suc 0, Some ''30'')] 0,
                 m_key = None, m_type = BDB_RS_JOIN, m_isset = True\<rparr>"

definition test_heap :: heap where
  "test_heap = (\<lambda>a. if a = 0 then rs_autumn else if a = 1 then rs_days30
                    else if a = 2 then rs_days32 else rs_months)"







definition september_engine :: engine where
  "september_engine =
     test_engine\<lparr>dbs := (dbs test_engine)(0 := month_db\<lparr>recs :=
       [(''November'', ''Autumn,30,11''), (''October'', ''Autumn,31,10''),
        (''September'', ''Autumn,30,9'')]\<rparr>)\<rparr>"

section \<open>Facts about the engine's stores\<close>

lemmas status_defs =
  EINVAL_def ENOENT_def EEXIST_def DB_FOREIGN_CONFLICT_def DB_KEYEXIST_def DB_NOTFOUND_def

lemmas fixture_defs =
  bytes_codec_def season_ix_def days_ix_def ordnum_ix_def month_db_def season_db_def
  test_engine_def test_db_def tmonth_def

lemma map_of_store_put_same: "map_of (store_put k d xs) k = Some d"
  by (induction xs) auto

lemma map_of_store_put_other: "k' \<noteq> k \<Longrightarrow> map_of (store_put k d xs) k' = map_of xs k'"
  by (induction xs) auto

lemma map_of_primary_view:
  "map_of (map (\<lambda>(k, d). (k, k, d)) xs) k = map_option (\<lambda>d. (k, d)) (map_of xs k)"
  by (induction xs) auto

lemma next_fault_empty: "faults e = [] \<Longrightarrow> next_fault e = (0, e)"
  by (simp add: next_fault_def)

lemma db_put_ok_primary:
  assumes "db_put h txn k d flag e = (0, e')"
  shows "\<exists>p. h = Primary p \<and> map_of (recs (dbs e' p)) k = Some d \<and> faults e' = tl (faults e)"
  using assms
  by (auto simp: db_put_def next_fault_def Let_def status_defs map_of_store_put_same
      split: prod.splits option.splits list.splits DBH.splits if_splits)

lemma insert_september:
  "table_insert bytes_codec bytes_codec test_db tmonth ''September'' ''Autumn,30,9'' test_engine
     = (Inr (), september_engine)"
  by (simp add: table_insert_def db_put_def next_fault_def Let_def serialize_def stack_top_def
      foreign_rejects_def unique_collides_def sec_entries_def
      status_defs fixture_defs september_engine_def)

section \<open>Facts about writes\<close>

lemma put_secondaries_first:
  "put_secondaries e rs k d ss =
     (case find (\<lambda>s. foreign_rejects e s k d \<or> unique_collides rs s k d) ss of
        None \<Rightarrow> 0
      | Some s \<Rightarrow> if foreign_rejects e s k d then DB_FOREIGN_CONFLICT else EINVAL)"
  by (induction ss) auto

lemma db_put_primary_nofault:
  "faults e = [] \<Longrightarrow>
   db_put (Primary p) txn k d flag e =
     (if flag = DB_NOOVERWRITE \<and> map_of (recs (dbs e p)) k \<noteq> None then (DB_KEYEXIST, e)
      else if put_secondaries e (recs (dbs e p)) k d (rev (secs (dbs e p))) \<noteq> 0
      then (put_secondaries e (recs (dbs e p)) k d (rev (secs (dbs e p))), e)
      else (0, e\<lparr>dbs := (dbs e)(p := (dbs e p)\<lparr>recs := store_put k d (recs (dbs e p))\<rparr>)\<rparr>))"
  by (simp add: db_put_def next_fault_def Let_def)

lemma db_put_fault:
  "faults e = f # fs \<Longrightarrow> f \<noteq> 0 \<Longrightarrow> db_put h txn k d flag e = (f, e\<lparr>faults := fs\<rparr>)"
  by (simp add: db_put_def next_fault_def)

text \<open>
  The library's tests 7 and 21 on the test data: a record whose season is missing from
  the master table is refused with ForeignKeyViolation, and one whose ordinal number is
  taken as well with AlreadyExists, because the unique index is visited first.
\<close>

lemma tests_7_and_21:
  "fst (table_insert bytes_codec bytes_codec test_db tmonth ''September'' ''Fall,30,9'' test_engine)
     = Inl BDB_ERROR_FOREIGN_KEY
   \<and> fst (table_insert bytes_codec bytes_codec test_db tmonth ''September'' ''Fall,31,10''
            test_engine) = Inl BDB_ERROR_EXISTS"
  by (simp add: table_insert_def db_put_def next_fault_def Let_def serialize_def stack_top_def
      foreign_rejects_def unique_collides_def sec_entries_def status_defs fixture_defs)

lemma find_none_list_ex: "find P xs = None \<longleftrightarrow> \<not> list_ex P xs"
  by (induction xs) auto

lemma find_first_kind:
  "list_ex F xs \<Longrightarrow> \<not> list_ex U xs \<Longrightarrow> \<exists>s. find (\<lambda>s. F s \<or> U s) xs = Some s \<and> F s"
  by (induction xs) auto

lemma find_second_kind:
  "list_ex U xs \<Longrightarrow> \<not> list_ex F xs \<Longrightarrow> \<exists>s. find (\<lambda>s. F s \<or> U s) xs = Some s \<and> \<not> F s"
  by (induction xs) auto

lemmas write_fixture_defs =
  foreign_rejects_def unique_collides_def sec_entries_def serialize_def status_defs fixture_defs

section \<open>The round trip of a record\<close>

text \<open>
  C1. For every table, key and data: if \<open>insert\<close> of the key and the data succeeds, then
  immediately afterwards \<open>exists\<close> of the key returns true and \<open>select\<close> of the key returns
  exactly the data inserted. The law is stated for an engine that serves the two reads
  without a failure of its own, and for a message type that parses what it serialized
  back to the same message.
\<close>

theorem insert_roundtrip:
  assumes ins: "table_insert kc dc db t key data e = (Inr (), e1)"
    and nofault: "faults e1 = []"
    and codec: "ParseFromString dc (SerializeToString dc data) = data"
  shows "table_exists kc db t key e1 = (Inr True, e1)
       \<and> table_select kc dc db t key out e1 = (Inr data, e1)"
proof -
  from ins have put:
    "db_put (m_db t) (stack_top (m_txns db)) (serialize kc key) (serialize dc data)
       DB_NOOVERWRITE e = (0, e1)"
    by (auto simp: table_insert_def Let_def split: prod.splits if_splits)
  from db_put_ok_primary[OF put] obtain p where
    h: "m_db t = Primary p"
    and m: "map_of (recs (dbs e1 p)) (serialize kc key) = Some (serialize dc data)"
    by blast
  have ex: "db_exists (m_db t) (stack_top (m_txns db)) (serialize kc key) e1 = (0, e1)"
    using h m nofault
    by (simp add: db_exists_def next_fault_def db_content_def map_of_primary_view)
  have gt: "db_get (m_db t) (stack_top (m_txns db)) (serialize kc key) e1
              = ((0, serialize dc data), e1)"
    using h m nofault
    by (simp add: db_get_def next_fault_def db_content_def map_of_primary_view)
  show ?thesis using ex gt codec
    by (simp add: table_exists_def table_select_def Let_def unserialize_def serialize_def)
qed

theorem insert_roundtrip_witness:
  "table_insert bytes_codec bytes_codec test_db tmonth ''September'' ''Autumn,30,9'' test_engine
     = (Inr (), september_engine)
   \<and> faults september_engine = []
   \<and> table_exists bytes_codec test_db tmonth ''September'' september_engine
       = (Inr True, september_engine)
   \<and> table_select bytes_codec bytes_codec test_db tmonth ''September'' '''' september_engine
       = (Inr ''Autumn,30,9'', september_engine)"
proof -
  have f: "faults september_engine = []"
    by (simp add: september_engine_def test_engine_def)
  have c: "ParseFromString bytes_codec (SerializeToString bytes_codec ''Autumn,30,9'')
             = ''Autumn,30,9''"
    by (simp add: bytes_codec_def)
  show ?thesis
    using insert_roundtrip[OF insert_september f c, of "''''"] insert_september f by simp
qed

section \<open>Errors of insert\<close>

text \<open>
  C2. \<open>insert\<close> raises AlreadyExists exactly when the key is already in the table or a
  derived key collides in an index of unique keys, ForeignKeyViolation when a foreign
  constraint does not find the derived key in its master table, and Unknown on every
  other failure. The documentation of \<open>table::insert\<close> says the same, but its switch has
  the case \<open>EINVAL\<close>, the engine's status for any invalid argument, next to the case
  \<open>DB_KEYEXIST\<close>, and throws AlreadyExists for both. So a failure that is neither a
  duplicate key nor a collision is reported as AlreadyExists: on the table \<open>season\<close>,
  which has no index, with the key \<open>Spring\<close>, which is absent, a put that the engine
  fails with \<open>EINVAL\<close> makes \<open>insert\<close> raise AlreadyExists, where \<open>update\<close>, whose switch has no
  such case, raises Unknown for the same failure of the put.
\<close>

theorem insert_invalid_argument_as_exists:
  "map_of (recs (dbs test_engine 1)) ''Spring'' = None
   \<and> secs (dbs test_engine 1) = []
   \<and> m_db tseason = Primary 1
   \<and> table_insert bytes_codec bytes_codec test_db tseason ''Spring'' ''''
        (test_engine\<lparr>faults := [EINVAL]\<rparr>) = (Inl BDB_ERROR_EXISTS, test_engine)
   \<and> map_of (recs (dbs test_engine 1)) ''Winter'' = Some ''''
   \<and> table_update bytes_codec bytes_codec test_db tseason ''Winter'' ''cold''
        (test_engine\<lparr>faults := [0, EINVAL]\<rparr>) = (Inl BDB_ERROR_UNKNOWN, test_engine)"
  by (simp add: table_insert_def table_update_def db_put_def db_exists_def db_content_def
      next_fault_def Let_def serialize_def stack_top_def status_defs fixture_defs tseason_def)

section \<open>The existence probe\<close>

text \<open>
  C9. \<open>table::exists\<close>, and \<open>index::exists\<close> which delegates to it, never raises: for
  every key it returns true exactly when the engine's probe reports success, and false
  for every other status, so a failure of the engine (here an input/output error on a
  key that is present) is reported as false, as the absence of the record is.
\<close>

theorem exists_never_raises:
  "fst (table_exists kc db t key e)
     = Inr (fst (db_exists (m_db t) (stack_top (m_txns db)) (serialize kc key) e) = 0)
   \<and> index_exists kc db t key e = table_exists kc db t key e
   \<and> (fst (db_exists (m_db t) (stack_top (m_txns db)) (serialize kc key) e) \<noteq> 0
        \<longrightarrow> fst (table_exists kc db t key e) = Inr False)
   \<and> (\<forall>f fs. faults e = f # fs \<and> f \<noteq> 0 \<longrightarrow> fst (table_exists kc db t key e) = Inr False)"
  by (auto simp: table_exists_def index_exists_def db_exists_def next_fault_def Let_def
      split: prod.splits)

theorem exists_never_raises_witness:
  "faults (test_engine\<lparr>faults := [EIO]\<rparr>) = [EIO] \<and> EIO \<noteq> 0
   \<and> fst (table_exists bytes_codec test_db tmonth ''November'' (test_engine\<lparr>faults := [EIO]\<rparr>))
       = Inr False
   \<and> fst (table_exists bytes_codec test_db tmonth ''November'' test_engine) = Inr True
   \<and> fst (table_exists bytes_codec test_db tmonth ''May'' test_engine) = Inr False"
proof -
  have h: "faults (test_engine\<lparr>faults := [EIO]\<rparr>) = [EIO] \<and> EIO \<noteq> 0"
    by (simp add: EIO_def)
  from exists_never_raises[of bytes_codec test_db tmonth "''November''"
      "test_engine\<lparr>faults := [EIO]\<rparr>"] h
  have a: "fst (table_exists bytes_codec test_db tmonth ''November''
      (test_engine\<lparr>faults := [EIO]\<rparr>)) = Inr False"
    by blast
  have b: "fst (table_exists bytes_codec test_db tmonth ''November'' test_engine) = Inr True"
    by (simp add: table_exists_def db_exists_def db_content_def next_fault_def Let_def
        serialize_def stack_top_def status_defs fixture_defs)
  have c: "fst (table_exists bytes_codec test_db tmonth ''May'' test_engine) = Inr False"
    by (simp add: table_exists_def db_exists_def db_content_def next_fault_def Let_def
        serialize_def stack_top_def status_defs fixture_defs)
  from h a b c show ?thesis by blast
qed

section \<open>Facts about probes\<close>

lemma db_exists_dbs: "dbs (snd (db_exists h txn k e)) = dbs e"
  by (auto simp: db_exists_def next_fault_def split: prod.splits option.splits list.splits)

lemma db_exists_absent:
  "map_of (recs (dbs e p)) k = None \<Longrightarrow> fst (db_exists (Primary p) txn k e) \<noteq> 0"
  by (auto simp: db_exists_def next_fault_def db_content_def map_of_primary_view status_defs
      split: prod.splits option.splits list.splits)

lemma db_exists_primary_nofault:
  "faults e = [] \<Longrightarrow>
   db_exists (Primary p) txn k e = ((if map_of (recs (dbs e p)) k = None then DB_NOTFOUND else 0), e)"
  by (auto simp: db_exists_def next_fault_def db_content_def map_of_primary_view
      split: option.splits)

section \<open>Update\<close>

lemma table_update_present:
  assumes "faults e = []" "m_db t = Primary p" "map_of (recs (dbs e p)) (serialize kc key) \<noteq> None"
  shows "table_update kc dc db t key data e =
     (case find (\<lambda>s. foreign_rejects e s (serialize kc key) (serialize dc data)
                     \<or> unique_collides (recs (dbs e p)) s (serialize kc key) (serialize dc data))
                (rev (secs (dbs e p))) of
        None \<Rightarrow> (Inr (), e\<lparr>dbs := (dbs e)(p := (dbs e p)\<lparr>recs :=
                     store_put (serialize kc key) (serialize dc data) (recs (dbs e p))\<rparr>)\<rparr>)
      | Some s \<Rightarrow>
          if foreign_rejects e s (serialize kc key) (serialize dc data)
          then (Inl BDB_ERROR_FOREIGN_KEY, e) else (Inl BDB_ERROR_UNKNOWN, e))"
  using assms
  by (auto simp: table_update_def Let_def db_exists_primary_nofault db_put_primary_nofault
      put_secondaries_first status_defs split: option.splits)

text \<open>
  C5 (as amended). \<open>update\<close> probes for the key before it writes: when the probe does not
  succeed, and so whenever the key is absent, it raises NotFound and the table is
  unchanged. When the key is present, on an engine that does not fail on its own, the
  indexes of the table decide, in the order in which the engine visits them: if none
  refuses the new data, the write replaces the data of the record and leaves every
  other record as it was; if the first index that refuses has a foreign constraint
  that does not find the derived key in its master table, \<open>update\<close> raises
  ForeignKeyViolation; if it is an index of unique keys that holds the derived key for
  another record, \<open>update\<close> raises Unknown. An engine failure at the write is Unknown as
  well. Whenever \<open>update\<close> raises, the record keeps its data.
\<close>

theorem update_probe_then_write:
  "(fst (db_exists (m_db t) (stack_top (m_txns db)) (serialize kc key) e) \<noteq> 0
      \<longrightarrow> fst (table_update kc dc db t key data e) = Inl BDB_ERROR_NOT_FOUND
          \<and> dbs (snd (table_update kc dc db t key data e)) = dbs e)
   \<and> (m_db t = Primary p \<and> map_of (recs (dbs e p)) (serialize kc key) = None
      \<longrightarrow> fst (table_update kc dc db t key data e) = Inl BDB_ERROR_NOT_FOUND
          \<and> dbs (snd (table_update kc dc db t key data e)) = dbs e)
   \<and> (faults e = [] \<and> m_db t = Primary p \<and> map_of (recs (dbs e p)) (serialize kc key) \<noteq> None
      \<longrightarrow> fst (table_update kc dc db t key data e) =
            (case find (\<lambda>s. foreign_rejects e s (serialize kc key) (serialize dc data)
                           \<or> unique_collides (recs (dbs e p)) s (serialize kc key)
                                (serialize dc data))
                       (rev (secs (dbs e p))) of
               None \<Rightarrow> Inr ()
             | Some s \<Rightarrow>
                 if foreign_rejects e s (serialize kc key) (serialize dc data)
                 then Inl BDB_ERROR_FOREIGN_KEY else Inl BDB_ERROR_UNKNOWN)
          \<and> (fst (table_update kc dc db t key data e) = Inr ()
               \<longrightarrow> map_of (recs (dbs (snd (table_update kc dc db t key data e)) p))
                      (serialize kc key) = Some (serialize dc data)
                   \<and> (\<forall>k'. k' \<noteq> serialize kc key \<longrightarrow>
                          map_of (recs (dbs (snd (table_update kc dc db t key data e)) p)) k'
                            = map_of (recs (dbs e p)) k'))
          \<and> (fst (table_update kc dc db t key data e) \<noteq> Inr ()
               \<longrightarrow> recs (dbs (snd (table_update kc dc db t key data e)) p) = recs (dbs e p)))
   \<and> (faults e = [] \<and> m_db t = Primary p \<and> map_of (recs (dbs e p)) (serialize kc key) \<noteq> None
        \<and> \<not> list_ex (\<lambda>s. foreign_rejects e s (serialize kc key) (serialize dc data))
                 (secs (dbs e p))
        \<and> \<not> list_ex (\<lambda>s. unique_collides (recs (dbs e p)) s (serialize kc key)
                          (serialize dc data)) (secs (dbs e p))
      \<longrightarrow> fst (table_update kc dc db t key data e) = Inr ())
   \<and> (faults e = [] \<and> m_db t = Primary p \<and> map_of (recs (dbs e p)) (serialize kc key) \<noteq> None
        \<and> list_ex (\<lambda>s. foreign_rejects e s (serialize kc key) (serialize dc data))
              (secs (dbs e p))
        \<and> \<not> list_ex (\<lambda>s. unique_collides (recs (dbs e p)) s (serialize kc key)
                          (serialize dc data)) (secs (dbs e p))
      \<longrightarrow> fst (table_update kc dc db t key data e) = Inl BDB_ERROR_FOREIGN_KEY)
   \<and> (faults e = [] \<and> m_db t = Primary p \<and> map_of (recs (dbs e p)) (serialize kc key) \<noteq> None
        \<and> list_ex (\<lambda>s. unique_collides (recs (dbs e p)) s (serialize kc key)
                      (serialize dc data)) (secs (dbs e p))
        \<and> \<not> list_ex (\<lambda>s. foreign_rejects e s (serialize kc key) (serialize dc data))
                 (secs (dbs e p))
      \<longrightarrow> fst (table_update kc dc db t key data e) = Inl BDB_ERROR_UNKNOWN)
   \<and> (m_db t = Primary p \<and> map_of (recs (dbs e p)) (serialize kc key) \<noteq> None
        \<and> faults e = 0 # f # fs \<and> f \<noteq> 0
      \<longrightarrow> fst (table_update kc dc db t key data e) =
            (if f = DB_FOREIGN_CONFLICT then Inl BDB_ERROR_FOREIGN_KEY else Inl BDB_ERROR_UNKNOWN)
          \<and> dbs (snd (table_update kc dc db t key data e)) = dbs e)"
proof -
  let ?k = "serialize kc key" and ?d = "serialize dc data"
  let ?u = "table_update kc dc db t key data e"
  let ?F = "\<lambda>s. foreign_rejects e s ?k ?d"
  let ?U = "\<lambda>s. unique_collides (recs (dbs e p)) s ?k ?d"
  let ?new = "e\<lparr>dbs := (dbs e)(p := (dbs e p)\<lparr>recs := store_put ?k ?d (recs (dbs e p))\<rparr>)\<rparr>"
  have A: "fst ?u = Inl BDB_ERROR_NOT_FOUND \<and> dbs (snd ?u) = dbs e"
    if ne: "fst (db_exists (m_db t) (stack_top (m_txns db)) ?k e) \<noteq> 0"
  proof -
    obtain res e1 where ex: "db_exists (m_db t) (stack_top (m_txns db)) ?k e = (res, e1)"
      by (cases "db_exists (m_db t) (stack_top (m_txns db)) ?k e")
    with ne have r: "res \<noteq> 0" by simp
    have "dbs e1 = dbs e"
      using db_exists_dbs[of "m_db t" "stack_top (m_txns db)" ?k e] ex by simp
    with r ex show ?thesis by (simp add: table_update_def Let_def)
  qed
  have B: "fst ?u = Inl BDB_ERROR_NOT_FOUND \<and> dbs (snd ?u) = dbs e"
    if "m_db t = Primary p" "map_of (recs (dbs e p)) ?k = None"
    using that A db_exists_absent[of e p ?k "stack_top (m_txns db)"] by simp
  have P: "?u = (case find (\<lambda>s. ?F s \<or> ?U s) (rev (secs (dbs e p))) of
        None \<Rightarrow> (Inr (), ?new)
      | Some s \<Rightarrow> if ?F s then (Inl BDB_ERROR_FOREIGN_KEY, e) else (Inl BDB_ERROR_UNKNOWN, e))"
    if "faults e = []" "m_db t = Primary p" "map_of (recs (dbs e p)) ?k \<noteq> None"
    using that by (rule table_update_present)
  have C1: "fst ?u = (case find (\<lambda>s. ?F s \<or> ?U s) (rev (secs (dbs e p))) of
               None \<Rightarrow> Inr ()
             | Some s \<Rightarrow> if ?F s then Inl BDB_ERROR_FOREIGN_KEY else Inl BDB_ERROR_UNKNOWN)"
    if "faults e = []" "m_db t = Primary p" "map_of (recs (dbs e p)) ?k \<noteq> None"
    using P[OF that] by (simp split: option.splits)
  have C2: "map_of (recs (dbs (snd ?u) p)) ?k = Some ?d
      \<and> (\<forall>k'. k' \<noteq> ?k \<longrightarrow> map_of (recs (dbs (snd ?u) p)) k' = map_of (recs (dbs e p)) k')"
    if "faults e = []" "m_db t = Primary p" "map_of (recs (dbs e p)) ?k \<noteq> None"
      "fst ?u = Inr ()"
    using P[OF that(1,2,3)] that(4)
    by (auto simp: map_of_store_put_same map_of_store_put_other split: option.splits if_splits)
  have C3: "recs (dbs (snd ?u) p) = recs (dbs e p)"
    if "faults e = []" "m_db t = Primary p" "map_of (recs (dbs e p)) ?k \<noteq> None"
      "fst ?u \<noteq> Inr ()"
    using P[OF that(1,2,3)] that(4)
    by (auto split: option.splits if_splits)
  have D: "fst ?u = Inr ()"
    if h: "faults e = []" "m_db t = Primary p" "map_of (recs (dbs e p)) ?k \<noteq> None"
      and n: "\<not> list_ex ?F (secs (dbs e p))" "\<not> list_ex ?U (secs (dbs e p))"
  proof -
    from n have "\<not> list_ex (\<lambda>s. ?F s \<or> ?U s) (rev (secs (dbs e p)))"
      by (auto simp: list_ex_iff)
    then have "find (\<lambda>s. ?F s \<or> ?U s) (rev (secs (dbs e p))) = None"
      by (simp add: find_none_list_ex)
    with C1[OF h] show ?thesis by simp
  qed
  have E: "fst ?u = Inl BDB_ERROR_FOREIGN_KEY"
    if h: "faults e = []" "m_db t = Primary p" "map_of (recs (dbs e p)) ?k \<noteq> None"
      and n: "list_ex ?F (secs (dbs e p))" "\<not> list_ex ?U (secs (dbs e p))"
  proof -
    from n have "list_ex ?F (rev (secs (dbs e p)))" "\<not> list_ex ?U (rev (secs (dbs e p)))"
      by (auto simp: list_ex_iff)
    from find_first_kind[OF this] obtain s where
      "find (\<lambda>s. ?F s \<or> ?U s) (rev (secs (dbs e p))) = Some s" "?F s"
      by blast
    with C1[OF h] show ?thesis by simp
  qed
  have F: "fst ?u = Inl BDB_ERROR_UNKNOWN"
    if h: "faults e = []" "m_db t = Primary p" "map_of (recs (dbs e p)) ?k \<noteq> None"
      and n: "list_ex ?U (secs (dbs e p))" "\<not> list_ex ?F (secs (dbs e p))"
  proof -
    from n have "list_ex ?U (rev (secs (dbs e p)))" "\<not> list_ex ?F (rev (secs (dbs e p)))"
      by (auto simp: list_ex_iff)
    from find_second_kind[OF this] obtain s where
      "find (\<lambda>s. ?F s \<or> ?U s) (rev (secs (dbs e p))) = Some s" "\<not> ?F s"
      by blast
    with C1[OF h] show ?thesis by simp
  qed
  have G: "fst ?u = (if f = DB_FOREIGN_CONFLICT then Inl BDB_ERROR_FOREIGN_KEY
                      else Inl BDB_ERROR_UNKNOWN) \<and> dbs (snd ?u) = dbs e"
    if h: "m_db t = Primary p" "map_of (recs (dbs e p)) ?k \<noteq> None"
      "faults e = 0 # f # fs" "f \<noteq> 0"
  proof -
    have ex: "db_exists (m_db t) (stack_top (m_txns db)) ?k e = (0, e\<lparr>faults := f # fs\<rparr>)"
      using h
      by (auto simp: db_exists_def next_fault_def db_content_def map_of_primary_view)
    have put: "db_put (m_db t) (stack_top (m_txns db)) ?k ?d DB_OVERWRITE (e\<lparr>faults := f # fs\<rparr>)
        = (f, e\<lparr>faults := fs\<rparr>)"
      using db_put_fault[of "e\<lparr>faults := f # fs\<rparr>" f fs] h(4) by simp
    show ?thesis using ex put h(4) by (simp add: table_update_def Let_def)
  qed
  have A': "fst (db_exists (m_db t) (stack_top (m_txns db)) ?k e) \<noteq> 0
      \<longrightarrow> fst ?u = Inl BDB_ERROR_NOT_FOUND \<and> dbs (snd ?u) = dbs e"
    using A by blast
  have B': "m_db t = Primary p \<and> map_of (recs (dbs e p)) ?k = None
      \<longrightarrow> fst ?u = Inl BDB_ERROR_NOT_FOUND \<and> dbs (snd ?u) = dbs e"
    using B by blast
  have C': "faults e = [] \<and> m_db t = Primary p \<and> map_of (recs (dbs e p)) ?k \<noteq> None
      \<longrightarrow> fst ?u = (case find (\<lambda>s. ?F s \<or> ?U s) (rev (secs (dbs e p))) of
               None \<Rightarrow> Inr ()
             | Some s \<Rightarrow> if ?F s then Inl BDB_ERROR_FOREIGN_KEY else Inl BDB_ERROR_UNKNOWN)
          \<and> (fst ?u = Inr () \<longrightarrow> map_of (recs (dbs (snd ?u) p)) ?k = Some ?d
                \<and> (\<forall>k'. k' \<noteq> ?k \<longrightarrow>
                      map_of (recs (dbs (snd ?u) p)) k' = map_of (recs (dbs e p)) k'))
          \<and> (fst ?u \<noteq> Inr () \<longrightarrow> recs (dbs (snd ?u) p) = recs (dbs e p))"
    using C1 C2 C3 by blast
  have D': "faults e = [] \<and> m_db t = Primary p \<and> map_of (recs (dbs e p)) ?k \<noteq> None
        \<and> \<not> list_ex ?F (secs (dbs e p)) \<and> \<not> list_ex ?U (secs (dbs e p))
      \<longrightarrow> fst ?u = Inr ()"
    using D by blast
  have E': "faults e = [] \<and> m_db t = Primary p \<and> map_of (recs (dbs e p)) ?k \<noteq> None
        \<and> list_ex ?F (secs (dbs e p)) \<and> \<not> list_ex ?U (secs (dbs e p))
      \<longrightarrow> fst ?u = Inl BDB_ERROR_FOREIGN_KEY"
    using E by blast
  have F': "faults e = [] \<and> m_db t = Primary p \<and> map_of (recs (dbs e p)) ?k \<noteq> None
        \<and> list_ex ?U (secs (dbs e p)) \<and> \<not> list_ex ?F (secs (dbs e p))
      \<longrightarrow> fst ?u = Inl BDB_ERROR_UNKNOWN"
    using F by blast
  have G': "m_db t = Primary p \<and> map_of (recs (dbs e p)) ?k \<noteq> None
        \<and> faults e = 0 # f # fs \<and> f \<noteq> 0
      \<longrightarrow> fst ?u = (if f = DB_FOREIGN_CONFLICT then Inl BDB_ERROR_FOREIGN_KEY
                      else Inl BDB_ERROR_UNKNOWN) \<and> dbs (snd ?u) = dbs e"
    using G by blast
  show ?thesis
    by (rule conjI[OF A' conjI[OF B' conjI[OF C' conjI[OF D' conjI[OF E' conjI[OF F' G']]]]]])
qed

text \<open>
  The claim as first stated says that \<open>update\<close> overwrites the data whenever the key is
  present and no foreign constraint rejects the new data. On the test data, the record
  of November is present and its new data names a season of the master table, but an
  ordinal number that October has: \<open>update\<close> raises Unknown (its switch sends every
  status but a foreign conflict there) and the record is not overwritten.
\<close>

theorem update_collision_counterexample:
  "m_db tmonth = Primary 0 \<and> faults test_engine = []
   \<and> map_of (recs (dbs test_engine 0)) ''November'' = Some ''Autumn,30,11''
   \<and> map_of (recs (dbs test_engine 1)) ''Autumn'' = Some ''''
   \<and> \<not> foreign_rejects test_engine season_ix ''November'' ''Autumn,30,10''
   \<and> \<not> foreign_rejects test_engine days_ix ''November'' ''Autumn,30,10''
   \<and> \<not> foreign_rejects test_engine ordnum_ix ''November'' ''Autumn,30,10''
   \<and> table_update bytes_codec bytes_codec test_db tmonth ''November'' ''Autumn,30,10'' test_engine
       = (Inl BDB_ERROR_UNKNOWN, test_engine)"
  by (simp add: table_update_def db_put_def db_exists_def db_content_def next_fault_def Let_def
      stack_top_def write_fixture_defs)

theorem update_probe_then_write_witness:
  "m_db tmonth = Primary 0 \<and> faults test_engine = []
   \<and> map_of (recs (dbs test_engine 0)) (serialize bytes_codec ''May'') = None
   \<and> fst (table_update bytes_codec bytes_codec test_db tmonth ''May'' ''Spring,31,5'' test_engine)
       = Inl BDB_ERROR_NOT_FOUND
   \<and> dbs (snd (table_update bytes_codec bytes_codec test_db tmonth ''May'' ''Spring,31,5''
                  test_engine)) = dbs test_engine
   \<and> map_of (recs (dbs test_engine 0)) (serialize bytes_codec ''October'') \<noteq> None
   \<and> fst (table_update bytes_codec bytes_codec test_db tmonth ''October'' ''Winter,31,10''
            test_engine) = Inr ()
   \<and> map_of (recs (dbs (snd (table_update bytes_codec bytes_codec test_db tmonth ''October''
                                ''Winter,31,10'' test_engine)) 0)) ''October''
       = Some ''Winter,31,10''
   \<and> fst (table_update bytes_codec bytes_codec test_db tmonth ''October'' ''Spring,31,10''
            test_engine) = Inl BDB_ERROR_FOREIGN_KEY
   \<and> map_of (recs (dbs test_engine 0)) (serialize bytes_codec ''November'') \<noteq> None
   \<and> fst (table_update bytes_codec bytes_codec test_db tmonth ''November'' ''Autumn,30,10''
            test_engine) = Inl BDB_ERROR_UNKNOWN
   \<and> recs (dbs (snd (table_update bytes_codec bytes_codec test_db tmonth ''November''
                        ''Autumn,30,10'' test_engine)) 0) = recs (dbs test_engine 0)
   \<and> fst (table_update bytes_codec bytes_codec test_db tmonth ''November'' ''Spring,30,10''
            test_engine) = Inl BDB_ERROR_UNKNOWN
   \<and> fst (table_update bytes_codec bytes_codec test_db tmonth ''October'' ''Winter,31,10''
            (test_engine\<lparr>faults := [0, EIO]\<rparr>)) = Inl BDB_ERROR_UNKNOWN"
proof -
  have h0: "m_db tmonth = Primary 0 \<and> faults test_engine = []"
    by (simp add: fixture_defs)
  have h1: "map_of (recs (dbs test_engine 0)) (serialize bytes_codec ''May'') = None"
    by (simp add: fixture_defs serialize_def)
  have h2: "map_of (recs (dbs test_engine 0)) (serialize bytes_codec ''October'') \<noteq> None"
    by (simp add: fixture_defs serialize_def)
  have h3: "map_of (recs (dbs test_engine 0)) (serialize bytes_codec ''November'') \<noteq> None"
    by (simp add: fixture_defs serialize_def)
  have s: "serialize bytes_codec = (\<lambda>m. m)"
    by (simp add: serialize_def bytes_codec_def fun_eq_iff)
  have ok: "\<not> list_ex (\<lambda>s. foreign_rejects test_engine s (serialize bytes_codec ''October'')
                           (serialize bytes_codec ''Winter,31,10'')) (secs (dbs test_engine 0))
      \<and> \<not> list_ex (\<lambda>s. unique_collides (recs (dbs test_engine 0)) s
                           (serialize bytes_codec ''October'')
                           (serialize bytes_codec ''Winter,31,10'')) (secs (dbs test_engine 0))"
    by (simp add: write_fixture_defs)
  have fk: "list_ex (\<lambda>s. foreign_rejects test_engine s (serialize bytes_codec ''October'')
                           (serialize bytes_codec ''Spring,31,10'')) (secs (dbs test_engine 0))
      \<and> \<not> list_ex (\<lambda>s. unique_collides (recs (dbs test_engine 0)) s
                           (serialize bytes_codec ''October'')
                           (serialize bytes_codec ''Spring,31,10'')) (secs (dbs test_engine 0))"
    by (simp add: write_fixture_defs)
  have un: "list_ex (\<lambda>s. unique_collides (recs (dbs test_engine 0)) s
                           (serialize bytes_codec ''November'')
                           (serialize bytes_codec ''Autumn,30,10'')) (secs (dbs test_engine 0))
      \<and> \<not> list_ex (\<lambda>s. foreign_rejects test_engine s (serialize bytes_codec ''November'')
                           (serialize bytes_codec ''Autumn,30,10'')) (secs (dbs test_engine 0))"
    by (simp add: write_fixture_defs)
  have both: "(case find (\<lambda>s. foreign_rejects test_engine s (serialize bytes_codec ''November'')
                                (serialize bytes_codec ''Spring,30,10'')
                           \<or> unique_collides (recs (dbs test_engine 0)) s
                                (serialize bytes_codec ''November'')
                                (serialize bytes_codec ''Spring,30,10''))
                       (rev (secs (dbs test_engine 0))) of
               None \<Rightarrow> Inr ()
             | Some s \<Rightarrow>
                 if foreign_rejects test_engine s (serialize bytes_codec ''November'')
                      (serialize bytes_codec ''Spring,30,10'')
                 then Inl BDB_ERROR_FOREIGN_KEY else Inl BDB_ERROR_UNKNOWN)
         = (Inl BDB_ERROR_UNKNOWN :: bdb_error + unit)"
    by (simp add: write_fixture_defs)
  have fl: "faults (test_engine\<lparr>faults := [0, EIO]\<rparr>) = 0 # EIO # [] \<and> EIO \<noteq> 0
      \<and> EIO \<noteq> DB_FOREIGN_CONFLICT
      \<and> m_db tmonth = Primary 0
      \<and> map_of (recs (dbs (test_engine\<lparr>faults := [0, EIO]\<rparr>) 0))
            (serialize bytes_codec ''October'') \<noteq> None"
    by (simp add: fixture_defs serialize_def EIO_def status_defs)
  note u1 = update_probe_then_write[of tmonth test_db bytes_codec "''May''" test_engine
      bytes_codec "''Spring,31,5''" 0]
  note u2 = update_probe_then_write[of tmonth test_db bytes_codec "''October''" test_engine
      bytes_codec "''Winter,31,10''" 0]
  note u3 = update_probe_then_write[of tmonth test_db bytes_codec "''October''" test_engine
      bytes_codec "''Spring,31,10''" 0]
  note u4 = update_probe_then_write[of tmonth test_db bytes_codec "''November''" test_engine
      bytes_codec "''Autumn,30,10''" 0]
  note u5 = update_probe_then_write[of tmonth test_db bytes_codec "''November''" test_engine
      bytes_codec "''Spring,30,10''" 0]
  note u6 = update_probe_then_write[of tmonth test_db bytes_codec "''October''"
      "test_engine\<lparr>faults := [0, EIO]\<rparr>" bytes_codec "''Winter,31,10''" 0 EIO "[]"]
  from u1 h0 h1 have a: "fst (table_update bytes_codec bytes_codec test_db tmonth ''May''
      ''Spring,31,5'' test_engine) = Inl BDB_ERROR_NOT_FOUND
    \<and> dbs (snd (table_update bytes_codec bytes_codec test_db tmonth ''May'' ''Spring,31,5''
                  test_engine)) = dbs test_engine"
    by blast
  from u2 h0 h2 ok have b1: "fst (table_update bytes_codec bytes_codec test_db tmonth ''October''
      ''Winter,31,10'' test_engine) = Inr ()"
    by blast
  from u2 h0 h2 b1 have "map_of (recs (dbs (snd (table_update bytes_codec bytes_codec test_db tmonth
        ''October'' ''Winter,31,10'' test_engine)) 0)) (serialize bytes_codec ''October'')
       = Some (serialize bytes_codec ''Winter,31,10'')"
    by blast
  then have b2: "map_of (recs (dbs (snd (table_update bytes_codec bytes_codec test_db tmonth
        ''October'' ''Winter,31,10'' test_engine)) 0)) ''October'' = Some ''Winter,31,10''"
    by (simp add: s)
  from u3 h0 h2 fk have c: "fst (table_update bytes_codec bytes_codec test_db tmonth ''October''
      ''Spring,31,10'' test_engine) = Inl BDB_ERROR_FOREIGN_KEY"
    by blast
  from u4 h0 h3 un have d1: "fst (table_update bytes_codec bytes_codec test_db tmonth ''November''
      ''Autumn,30,10'' test_engine) = Inl BDB_ERROR_UNKNOWN"
    by blast
  then have d1': "fst (table_update bytes_codec bytes_codec test_db tmonth ''November''
      ''Autumn,30,10'' test_engine) \<noteq> Inr ()"
    by simp
  from u4 h0 h3 d1' have d2: "recs (dbs (snd (table_update bytes_codec bytes_codec test_db tmonth
      ''November'' ''Autumn,30,10'' test_engine)) 0) = recs (dbs test_engine 0)"
    by blast
  from u5 h0 h3 have "fst (table_update bytes_codec bytes_codec test_db tmonth ''November''
      ''Spring,30,10'' test_engine) =
        (case find (\<lambda>s. foreign_rejects test_engine s (serialize bytes_codec ''November'')
                                (serialize bytes_codec ''Spring,30,10'')
                           \<or> unique_collides (recs (dbs test_engine 0)) s
                                (serialize bytes_codec ''November'')
                                (serialize bytes_codec ''Spring,30,10''))
                       (rev (secs (dbs test_engine 0))) of
               None \<Rightarrow> Inr ()
             | Some s \<Rightarrow>
                 if foreign_rejects test_engine s (serialize bytes_codec ''November'')
                      (serialize bytes_codec ''Spring,30,10'')
                 then Inl BDB_ERROR_FOREIGN_KEY else Inl BDB_ERROR_UNKNOWN)"
    by blast
  with both have e5: "fst (table_update bytes_codec bytes_codec test_db tmonth ''November''
      ''Spring,30,10'' test_engine) = Inl BDB_ERROR_UNKNOWN"
    by simp
  from u6 fl have "fst (table_update bytes_codec bytes_codec test_db tmonth ''October''
      ''Winter,31,10'' (test_engine\<lparr>faults := [0, EIO]\<rparr>))
      = (if EIO = DB_FOREIGN_CONFLICT then Inl BDB_ERROR_FOREIGN_KEY else Inl BDB_ERROR_UNKNOWN)"
    by blast
  with fl have g: "fst (table_update bytes_codec bytes_codec test_db tmonth ''October''
      ''Winter,31,10'' (test_engine\<lparr>faults := [0, EIO]\<rparr>)) = Inl BDB_ERROR_UNKNOWN"
    by simp
  from h0 h1 a h2 b1 b2 c h3 d1 d2 e5 g show ?thesis by blast
qed

section \<open>Committing and rolling back\<close>

text \<open>
  C4. \<open>commit_transaction\<close> and \<open>rollback_transaction\<close> each raise NotFound when only
  the top-level transaction is on the stack, and leave the stack as it is; otherwise
  they pop exactly the transaction on top and hand it to the engine to be committed or
  aborted, raising Unknown if that step fails. (The stack of an open database is never
  empty.)
\<close>

theorem transaction_finalize:
  "(length (m_txns db) = 1
      \<longrightarrow> commit_transaction db e = (Inl BDB_ERROR_NOT_FOUND, db, e)
        \<and> rollback_transaction db e = (Inl BDB_ERROR_NOT_FOUND, db, e))
   \<and> (\<forall>txn rest. m_txns db = txn # rest \<and> rest \<noteq> []
      \<longrightarrow> commit_transaction db e =
            ((if fst (txn_commit txn e) \<noteq> 0 then Inl BDB_ERROR_UNKNOWN else Inr ()),
             db\<lparr>m_txns := rest\<rparr>, snd (txn_commit txn e))
        \<and> rollback_transaction db e =
            ((if fst (txn_abort txn e) \<noteq> 0 then Inl BDB_ERROR_UNKNOWN else Inr ()),
             db\<lparr>m_txns := rest\<rparr>, snd (txn_abort txn e))
        \<and> (faults e = []
             \<longrightarrow> finalized (snd (snd (commit_transaction db e))) = (txn, True) # finalized e
               \<and> finalized (snd (snd (rollback_transaction db e))) = (txn, False) # finalized e))"
  by (auto simp: commit_transaction_def rollback_transaction_def Let_def stack_top_def
      stack_pop_def txn_commit_def txn_abort_def next_fault_def split: prod.splits)

theorem transaction_finalize_witness:
  "length (m_txns test_db) = 1
   \<and> commit_transaction test_db test_engine = (Inl BDB_ERROR_NOT_FOUND, test_db, test_engine)
   \<and> rollback_transaction test_db test_engine = (Inl BDB_ERROR_NOT_FOUND, test_db, test_engine)
   \<and> m_txns (test_db\<lparr>m_txns := [2, 1, 0]\<rparr>) = 2 # [1, 0]
   \<and> fst (commit_transaction (test_db\<lparr>m_txns := [2, 1, 0]\<rparr>) test_engine) = Inr ()
   \<and> m_txns (fst (snd (commit_transaction (test_db\<lparr>m_txns := [2, 1, 0]\<rparr>) test_engine))) = [1, 0]
   \<and> finalized (snd (snd (commit_transaction (test_db\<lparr>m_txns := [2, 1, 0]\<rparr>) test_engine)))
       = [(2, True)]
   \<and> fst (rollback_transaction (test_db\<lparr>m_txns := [2, 1, 0]\<rparr>) (test_engine\<lparr>faults := [EIO]\<rparr>))
       = Inl BDB_ERROR_UNKNOWN
   \<and> m_txns (fst (snd (rollback_transaction (test_db\<lparr>m_txns := [2, 1, 0]\<rparr>)
        (test_engine\<lparr>faults := [EIO]\<rparr>)))) = [1, 0]"
proof -
  have h1: "length (m_txns test_db) = 1" by (simp add: test_db_def)
  have h2: "m_txns (test_db\<lparr>m_txns := [2, 1, 0]\<rparr>) = 2 # [1, 0] \<and> [1, 0] \<noteq> ([]::nat list)"
    by simp
  have h3: "faults test_engine = []" by (simp add: test_engine_def)
  from transaction_finalize[of test_db test_engine] h1
  have a: "commit_transaction test_db test_engine = (Inl BDB_ERROR_NOT_FOUND, test_db, test_engine)
     \<and> rollback_transaction test_db test_engine = (Inl BDB_ERROR_NOT_FOUND, test_db, test_engine)"
    by blast
  from transaction_finalize[of "test_db\<lparr>m_txns := [2, 1, 0]\<rparr>" test_engine] h2 h3
  have b: "commit_transaction (test_db\<lparr>m_txns := [2, 1, 0]\<rparr>) test_engine =
            ((if fst (txn_commit 2 test_engine) \<noteq> 0 then Inl BDB_ERROR_UNKNOWN else Inr ()),
             test_db\<lparr>m_txns := [2, 1, 0]\<rparr>\<lparr>m_txns := [1, 0]\<rparr>, snd (txn_commit 2 test_engine))
         \<and> finalized (snd (snd (commit_transaction (test_db\<lparr>m_txns := [2, 1, 0]\<rparr>) test_engine)))
             = (2, True) # finalized test_engine"
    by blast
  from transaction_finalize[of "test_db\<lparr>m_txns := [2, 1, 0]\<rparr>" "test_engine\<lparr>faults := [EIO]\<rparr>"] h2
  have c: "rollback_transaction (test_db\<lparr>m_txns := [2, 1, 0]\<rparr>) (test_engine\<lparr>faults := [EIO]\<rparr>) =
            ((if fst (txn_abort 2 (test_engine\<lparr>faults := [EIO]\<rparr>)) \<noteq> 0
              then Inl BDB_ERROR_UNKNOWN else Inr ()),
             test_db\<lparr>m_txns := [2, 1, 0]\<rparr>\<lparr>m_txns := [1, 0]\<rparr>,
             snd (txn_abort 2 (test_engine\<lparr>faults := [EIO]\<rparr>)))"
    by blast
  have t1: "fst (txn_commit 2 test_engine) = 0"
    by (simp add: txn_commit_def next_fault_def test_engine_def)
  have t2: "fst (txn_abort 2 (test_engine\<lparr>faults := [EIO]\<rparr>)) \<noteq> 0"
    by (simp add: txn_abort_def next_fault_def EIO_def)
  have f: "finalized test_engine = []" by (simp add: test_engine_def)
  from b t1 have b1: "fst (commit_transaction (test_db\<lparr>m_txns := [2, 1, 0]\<rparr>) test_engine) = Inr ()"
    by simp
  from b have b2: "m_txns (fst (snd (commit_transaction (test_db\<lparr>m_txns := [2, 1, 0]\<rparr>)
      test_engine))) = [1, 0]"
    by simp
  from b have "finalized (snd (snd (commit_transaction (test_db\<lparr>m_txns := [2, 1, 0]\<rparr>)
      test_engine))) = (2, True) # finalized test_engine"
    by blast
  with f have b3: "finalized (snd (snd (commit_transaction (test_db\<lparr>m_txns := [2, 1, 0]\<rparr>)
      test_engine))) = [(2, True)]"
    by simp
  from c t2 have c1: "fst (rollback_transaction (test_db\<lparr>m_txns := [2, 1, 0]\<rparr>)
      (test_engine\<lparr>faults := [EIO]\<rparr>)) = Inl BDB_ERROR_UNKNOWN"
    by simp
  from c have c2: "m_txns (fst (snd (rollback_transaction (test_db\<lparr>m_txns := [2, 1, 0]\<rparr>)
        (test_engine\<lparr>faults := [EIO]\<rparr>)))) = [1, 0]"
    by simp
  have h2': "m_txns (test_db\<lparr>m_txns := [2, 1, 0]\<rparr>) = 2 # [1, 0]" by simp
  from h1 a h2' b1 b2 b3 c1 c2 show ?thesis by blast
qed

section \<open>Facts about recordsets\<close>

lemmas rs_type_defs = BDB_RS_TABLE_def BDB_RS_DUPLICATES_def BDB_RS_UNIQUE_def BDB_RS_JOIN_def

lemmas rs_fixture_defs =
  rs_months_def rs_autumn_def rs_days30_def rs_days32_def test_heap_def

lemma recordset_table_inv:
  "recordset_table db tbl e = (Inr rs, e') \<Longrightarrow> recordset_inv rs"
  by (auto simp: recordset_table_def recordset_inv_def rs_type_defs split: prod.splits if_splits)

lemma recordset_index_inv:
  "recordset_index db idx e = (Inr rs, e') \<Longrightarrow> recordset_inv rs"
  by (auto simp: recordset_index_def recordset_inv_def rs_type_defs split: prod.splits if_splits)

lemma recordset_index_key_inv:
  "recordset_index_key kc db idx key e = (Inr rs, e') \<Longrightarrow> recordset_inv rs"
  by (auto simp: recordset_index_key_def recordset_inv_def rs_type_defs split: prod.splits if_splits)

lemma recordset_join_inv:
  "recordset_join tbl lst hp e = (Inr rs, hp', e') \<Longrightarrow> recordset_inv rs"
  by (auto simp: recordset_join_def recordset_inv_def rs_type_defs
      split: prod.splits sum.splits if_splits)

lemma recordset_fetch_inv:
  "recordset_inv rs \<Longrightarrow> recordset_inv (fst (snd (recordset_fetch kc dc rs key data e)))"
  by (auto simp: recordset_fetch_def recordset_inv_def split: prod.splits sum.splits if_splits)

lemma recordset_rewind_inv:
  "recordset_inv rs \<Longrightarrow> recordset_rewind rs = Inr rs' \<Longrightarrow> recordset_inv rs'"
  by (auto simp: recordset_rewind_def recordset_inv_def split: if_splits)

lemma join_loop_keys:
  "m_key (fst (snd (join_loop lst isset hp e)) a) = m_key (hp a)"
proof (induction lst arbitrary: isset hp e)
  case Nil
  show ?case by simp
next
  case (Cons p ps)
  show ?case
  proof (cases "m_key (hp p)")
    case None
    then show ?thesis by simp
  next
    case (Some mk)
    obtain res sk k d c' e' where pg: "c_pget (m_cursor (hp p)) mk DB_SET e = ((res, sk, k, d, c'), e')"
      by (metis prod_cases5 surj_pair)
    show ?thesis
      using Some pg Cons.IH by (simp add: Some)
  qed
qed

lemma join_loop_no_key:
  "p \<in> set lst \<Longrightarrow> m_key (hp p) = None
   \<Longrightarrow> fst (join_loop lst isset hp e) = Inl BDB_ERROR_UNKNOWN"
proof (induction lst arbitrary: isset hp e)
  case Nil
  then show ?case by simp
next
  case (Cons q qs)
  show ?case
  proof (cases "m_key (hp q)")
    case None
    then show ?thesis by simp
  next
    case (Some mk)
    with Cons.prems have pin: "p \<in> set qs" by auto
    obtain res sk k d c' e' where pg: "c_pget (m_cursor (hp q)) mk DB_SET e = ((res, sk, k, d, c'), e')"
      by (metis prod_cases5 surj_pair)
    have k1: "m_key ((hp(q := (hp q)\<lparr>m_cursor := c', m_isset := True\<rparr>)) p) = None"
      using Cons.prems(2) by auto
    have k2: "m_key ((hp(q := (hp q)\<lparr>m_cursor := c'\<rparr>)) p) = None"
      using Cons.prems(2) by auto
    have i1: "fst (join_loop qs isset (hp(q := (hp q)\<lparr>m_cursor := c', m_isset := True\<rparr>)) e')
        = Inl BDB_ERROR_UNKNOWN"
      using pin k1 by (rule Cons.IH)
    have i2: "fst (join_loop qs False (hp(q := (hp q)\<lparr>m_cursor := c'\<rparr>)) e')
        = Inl BDB_ERROR_UNKNOWN"
      using pin k2 by (rule Cons.IH)
    show ?thesis
      using Some pg i1 i2 by simp
  qed
qed

section \<open>The precondition of a join\<close>

text \<open>
  C7. The constructor of a join enforces that every member of the list is a recordset
  of an index filtered by a single key: when any member is of another kind it raises
  Unknown, and no other kind of error, and no join is constructed. (Recordsets are as
  their constructors build them: a search key is held exactly by those filtered by a
  key.)
\<close>

theorem join_requires_single_key:
  "(\<forall>p \<in> set lst. recordset_inv (hp p)) \<and> (\<exists>p \<in> set lst. m_type (hp p) \<noteq> BDB_RS_UNIQUE)
   \<longrightarrow> fst (recordset_join tbl lst hp e) = Inl BDB_ERROR_UNKNOWN"
proof
  assume a: "(\<forall>p \<in> set lst. recordset_inv (hp p)) \<and> (\<exists>p \<in> set lst. m_type (hp p) \<noteq> BDB_RS_UNIQUE)"
  then obtain p where p: "p \<in> set lst" "m_type (hp p) \<noteq> BDB_RS_UNIQUE" "recordset_inv (hp p)"
    by blast
  then have "m_key (hp p) = None" by (simp add: recordset_inv_def)
  with p(1) have "fst (join_loop lst True hp e) = Inl BDB_ERROR_UNKNOWN"
    by (rule join_loop_no_key)
  then show "fst (recordset_join tbl lst hp e) = Inl BDB_ERROR_UNKNOWN"
    by (cases "join_loop lst True hp e") (simp add: recordset_join_def)
qed

theorem join_requires_single_key_witness:
  "recordset_inv (test_heap 0) \<and> recordset_inv (test_heap 3)
   \<and> m_type (test_heap 3) \<noteq> BDB_RS_UNIQUE
   \<and> fst (recordset_join tmonth [0, 3] test_heap september_engine) = Inl BDB_ERROR_UNKNOWN"
proof -
  have i: "recordset_inv (test_heap 0) \<and> recordset_inv (test_heap 3)"
    by (simp add: recordset_inv_def rs_fixture_defs rs_type_defs)
  have t: "m_type (test_heap 3) \<noteq> BDB_RS_UNIQUE"
    by (simp add: rs_fixture_defs rs_type_defs)
  from i t have "(\<forall>p \<in> set [0, 3]. recordset_inv (test_heap p))
      \<and> (\<exists>p \<in> set [0, 3::nat]. m_type (test_heap p) \<noteq> BDB_RS_UNIQUE)"
    by simp
  with join_requires_single_key[of "[0, 3]" test_heap tmonth september_engine]
  have "fst (recordset_join tmonth [0, 3] test_heap september_engine) = Inl BDB_ERROR_UNKNOWN"
    by blast
  with i t show ?thesis by blast
qed

section \<open>Facts about fetching\<close>

lemma fetch_status_restart:
  assumes "m_type rs = BDB_RS_TABLE \<or> m_type rs = BDB_RS_DUPLICATES \<or> m_type rs = BDB_RS_UNIQUE"
    and "m_cursor rs = Cursor h pos"
  shows "map_sum id (\<lambda>(res, k, d, c). (res, k, d)) (fst (fetch_status (rs\<lparr>m_isset := False\<rparr>) e))
       = map_sum id (\<lambda>(res, k, d, c). (res, k, d))
           (fst (fetch_status (rs\<lparr>m_cursor := Cursor h None, m_isset := False\<rparr>) e))"
  using assms
  by (auto simp: fetch_status_def c_get_def c_pget_def seek_def rs_type_defs
      split: prod.splits option.splits list.splits DBH.splits move.splits)

lemma recordset_fetch_result:
  "fst (recordset_fetch kc dc rs key data e) =
     (case map_sum id (\<lambda>(res, k, d, c). (res, k, d)) (fst (fetch_status rs e)) of
        Inl err \<Rightarrow> Inl err
      | Inr (res, k, d) \<Rightarrow>
          if res = 0 then Inr (True, unserialize kc k key, unserialize dc d data)
          else Inr (False, key, data))"
  by (auto simp: recordset_fetch_def split: prod.splits sum.splits)

lemma fetch_restart:
  assumes "m_type rs = BDB_RS_TABLE \<or> m_type rs = BDB_RS_DUPLICATES \<or> m_type rs = BDB_RS_UNIQUE"
    and "m_cursor rs = Cursor h pos"
  shows "fst (recordset_fetch kc dc (rs\<lparr>m_isset := False\<rparr>) key data e)
       = fst (recordset_fetch kc dc (rs\<lparr>m_cursor := Cursor h None, m_isset := False\<rparr>) key data e)"
  unfolding recordset_fetch_result fetch_status_restart[OF assms] ..

lemma fetch_first_table:
  assumes "faults e = []" "m_type rs = BDB_RS_TABLE" "m_cursor rs = Cursor h pos"
    "db_content e h = Some es"
  shows "fst (recordset_fetch kc dc (rs\<lparr>m_isset := False\<rparr>) key data e) =
     (case es of
        [] \<Rightarrow> Inr (False, key, data)
      | x # xs \<Rightarrow> Inr (True, unserialize kc (fst x) key, unserialize dc (snd (snd x)) data))"
  using assms
  by (auto simp: recordset_fetch_def fetch_status_def c_get_def seek_def next_fault_def
      rs_type_defs status_defs split: list.splits)

lemma fetch_first_duplicates:
  assumes "faults e = []" "m_type rs = BDB_RS_DUPLICATES" "m_cursor rs = Cursor (Secondary p i) pos"
    "db_content e (Secondary p i) = Some es"
  shows "fst (recordset_fetch kc dc (rs\<lparr>m_isset := False\<rparr>) key data e) =
     (case es of
        [] \<Rightarrow> Inr (False, key, data)
      | x # xs \<Rightarrow> Inr (True, unserialize kc (fst (snd x)) key, unserialize dc (snd (snd x)) data))"
  using assms
  by (auto simp: recordset_fetch_def fetch_status_def c_pget_def seek_def next_fault_def
      rs_type_defs status_defs split: list.splits)

lemma fetch_first_unique:
  assumes "faults e = []" "m_type rs = BDB_RS_UNIQUE" "m_key rs = Some mk"
    "m_cursor rs = Cursor (Secondary p i) pos" "db_content e (Secondary p i) = Some es"
  shows "fst (recordset_fetch kc dc (rs\<lparr>m_isset := False\<rparr>) key data e) =
     (case key_find mk es of
        None \<Rightarrow> Inr (False, key, data)
      | Some (j, x) \<Rightarrow> Inr (True, unserialize kc (fst (snd x)) key, unserialize dc (snd (snd x)) data))"
  using assms
  by (auto simp: recordset_fetch_def fetch_status_def c_pget_def seek_def next_fault_def
      rs_type_defs status_defs split: option.splits)

lemma september_months:
  "db_content september_engine (Primary 0) =
     Some [(''November'', ''November'', ''Autumn,30,11''), (''October'', ''October'', ''Autumn,31,10''),
           (''September'', ''September'', ''Autumn,30,9'')]"
  by (simp add: db_content_def september_engine_def fixture_defs)

lemma september_days:
  "db_content september_engine (Secondary 0 (Suc 0)) =
     Some [(''30'', ''November'', ''Autumn,30,11''), (''30'', ''September'', ''Autumn,30,9''),
           (''31'', ''October'', ''Autumn,31,10'')]"
  by (simp add: db_content_def sec_entries_def september_engine_def fixture_defs)

lemma september_seasons:
  "db_content september_engine (Secondary 0 0) =
     Some [(''Autumn'', ''November'', ''Autumn,30,11''), (''Autumn'', ''October'', ''Autumn,31,10''),
           (''Autumn'', ''September'', ''Autumn,30,9'')]"
  by (simp add: db_content_def sec_entries_def september_engine_def fixture_defs)

lemma september_faults: "faults september_engine = []"
  by (simp add: september_engine_def test_engine_def)

section \<open>Rewinding\<close>

text \<open>
  C6. \<open>rewind\<close> on a recordset of a table, of an index, or of an index filtered by a
  key resets it to the state in which nothing has been fetched, so that the next fetch
  returns what the first fetch of a newly opened recordset returns: the first record
  of the table or index, or the first record with the key. On a join it raises Unknown.
\<close>

theorem rewind_restarts:
  "(m_type rs = BDB_RS_JOIN \<longrightarrow> recordset_rewind rs = Inl BDB_ERROR_UNKNOWN)
   \<and> (m_type rs \<noteq> BDB_RS_JOIN \<longrightarrow> recordset_rewind rs = Inr (rs\<lparr>m_isset := False\<rparr>))
   \<and> ((m_type rs = BDB_RS_TABLE \<or> m_type rs = BDB_RS_DUPLICATES \<or> m_type rs = BDB_RS_UNIQUE)
        \<and> m_cursor rs = Cursor h pos
      \<longrightarrow> fst (recordset_fetch kc dc (rs\<lparr>m_isset := False\<rparr>) key data e)
          = fst (recordset_fetch kc dc (rs\<lparr>m_cursor := Cursor h None, m_isset := False\<rparr>)
                  key data e))
   \<and> (faults e = [] \<and> m_type rs = BDB_RS_TABLE \<and> m_cursor rs = Cursor h pos
        \<and> db_content e h = Some es
      \<longrightarrow> fst (recordset_fetch kc dc (rs\<lparr>m_isset := False\<rparr>) key data e) =
            (case es of
               [] \<Rightarrow> Inr (False, key, data)
             | x # xs \<Rightarrow> Inr (True, unserialize kc (fst x) key, unserialize dc (snd (snd x)) data)))
   \<and> (faults e = [] \<and> m_type rs = BDB_RS_DUPLICATES \<and> m_cursor rs = Cursor (Secondary p i) pos
        \<and> db_content e (Secondary p i) = Some es
      \<longrightarrow> fst (recordset_fetch kc dc (rs\<lparr>m_isset := False\<rparr>) key data e) =
            (case es of
               [] \<Rightarrow> Inr (False, key, data)
             | x # xs \<Rightarrow>
                 Inr (True, unserialize kc (fst (snd x)) key, unserialize dc (snd (snd x)) data)))
   \<and> (faults e = [] \<and> m_type rs = BDB_RS_UNIQUE \<and> m_key rs = Some mk
        \<and> m_cursor rs = Cursor (Secondary p i) pos \<and> db_content e (Secondary p i) = Some es
      \<longrightarrow> fst (recordset_fetch kc dc (rs\<lparr>m_isset := False\<rparr>) key data e) =
            (case key_find mk es of
               None \<Rightarrow> Inr (False, key, data)
             | Some (j, x) \<Rightarrow>
                 Inr (True, unserialize kc (fst (snd x)) key, unserialize dc (snd (snd x)) data)))"
proof (intro conjI impI)
  show "recordset_rewind rs = Inl BDB_ERROR_UNKNOWN" if "m_type rs = BDB_RS_JOIN"
    using that by (simp add: recordset_rewind_def)
  show "recordset_rewind rs = Inr (rs\<lparr>m_isset := False\<rparr>)" if "m_type rs \<noteq> BDB_RS_JOIN"
    using that by (simp add: recordset_rewind_def)
  show "fst (recordset_fetch kc dc (rs\<lparr>m_isset := False\<rparr>) key data e)
      = fst (recordset_fetch kc dc (rs\<lparr>m_cursor := Cursor h None, m_isset := False\<rparr>) key data e)"
    if "(m_type rs = BDB_RS_TABLE \<or> m_type rs = BDB_RS_DUPLICATES \<or> m_type rs = BDB_RS_UNIQUE)
        \<and> m_cursor rs = Cursor h pos"
    using that by (intro fetch_restart) auto
  show "fst (recordset_fetch kc dc (rs\<lparr>m_isset := False\<rparr>) key data e) =
            (case es of
               [] \<Rightarrow> Inr (False, key, data)
             | x # xs \<Rightarrow> Inr (True, unserialize kc (fst x) key, unserialize dc (snd (snd x)) data))"
    if "faults e = [] \<and> m_type rs = BDB_RS_TABLE \<and> m_cursor rs = Cursor h pos
        \<and> db_content e h = Some es"
    using that by (intro fetch_first_table) auto
  show "fst (recordset_fetch kc dc (rs\<lparr>m_isset := False\<rparr>) key data e) =
            (case es of
               [] \<Rightarrow> Inr (False, key, data)
             | x # xs \<Rightarrow>
                 Inr (True, unserialize kc (fst (snd x)) key, unserialize dc (snd (snd x)) data))"
    if "faults e = [] \<and> m_type rs = BDB_RS_DUPLICATES \<and> m_cursor rs = Cursor (Secondary p i) pos
        \<and> db_content e (Secondary p i) = Some es"
    using that by (intro fetch_first_duplicates) auto
  show "fst (recordset_fetch kc dc (rs\<lparr>m_isset := False\<rparr>) key data e) =
            (case key_find mk es of
               None \<Rightarrow> Inr (False, key, data)
             | Some (j, x) \<Rightarrow>
                 Inr (True, unserialize kc (fst (snd x)) key, unserialize dc (snd (snd x)) data))"
    if "faults e = [] \<and> m_type rs = BDB_RS_UNIQUE \<and> m_key rs = Some mk
        \<and> m_cursor rs = Cursor (Secondary p i) pos \<and> db_content e (Secondary p i) = Some es"
    using that by (intro fetch_first_unique) auto
qed

theorem rewind_restarts_witness:
  "m_type rs_joined = BDB_RS_JOIN \<and> recordset_rewind rs_joined = Inl BDB_ERROR_UNKNOWN
   \<and> m_type rs_months_read \<noteq> BDB_RS_JOIN
   \<and> recordset_rewind rs_months_read = Inr (rs_months_read\<lparr>m_isset := False\<rparr>)
   \<and> fst (recordset_fetch bytes_codec bytes_codec rs_months_read '''' '''' september_engine)
       = Inr (False, '''', '''')
   \<and> fst (recordset_fetch bytes_codec bytes_codec (rs_months_read\<lparr>m_isset := False\<rparr>) '''' ''''
            september_engine) = Inr (True, ''November'', ''Autumn,30,11'')
   \<and> fst (recordset_fetch bytes_codec bytes_codec rs_days30_read '''' '''' september_engine)
       = Inr (False, '''', '''')
   \<and> fst (recordset_fetch bytes_codec bytes_codec (rs_days30_read\<lparr>m_isset := False\<rparr>) '''' ''''
            september_engine) = Inr (True, ''November'', ''Autumn,30,11'')
   \<and> fst (recordset_fetch bytes_codec bytes_codec rs_seasons_read '''' '''' september_engine)
       = Inr (False, '''', '''')
   \<and> fst (recordset_fetch bytes_codec bytes_codec (rs_seasons_read\<lparr>m_isset := False\<rparr>) '''' ''''
            september_engine) = Inr (True, ''November'', ''Autumn,30,11'')
   \<and> fst (recordset_fetch bytes_codec bytes_codec (rs_seasons_read\<lparr>m_isset := False\<rparr>) '''' ''''
            september_engine)
       = fst (recordset_fetch bytes_codec bytes_codec
               (rs_seasons_read\<lparr>m_cursor := Cursor (Secondary 0 0) None, m_isset := False\<rparr>)
               '''' '''' september_engine)"
proof -
  note r4 = rewind_restarts[of rs_seasons_read "Secondary 0 0" "Some 2" bytes_codec bytes_codec
      "''''" "''''" september_engine
      "[(''Autumn'', ''November'', ''Autumn,30,11''), (''Autumn'', ''October'', ''Autumn,31,10''),
           (''Autumn'', ''September'', ''Autumn,30,9'')]" 0 0]
  have s: "m_type rs_seasons_read = BDB_RS_DUPLICATES
      \<and> m_cursor rs_seasons_read = Cursor (Secondary 0 0) (Some 2)"
    by (simp add: rs_seasons_read_def)
  from r4[THEN conjunct2, THEN conjunct2, THEN conjunct2, THEN conjunct2, THEN conjunct1]
    s september_faults september_seasons
  have "fst (recordset_fetch bytes_codec bytes_codec (rs_seasons_read\<lparr>m_isset := False\<rparr>) '''' ''''
            september_engine) =
      (case [(''Autumn'', ''November'', ''Autumn,30,11''), (''Autumn'', ''October'', ''Autumn,31,10''),
           (''Autumn'', ''September'', ''Autumn,30,9'')] of
               [] \<Rightarrow> Inr (False, '''', '''')
             | x # xs \<Rightarrow> Inr (True, unserialize bytes_codec (fst (snd x)) '''',
                               unserialize bytes_codec (snd (snd x)) ''''))"
    by blast
  then have a5: "fst (recordset_fetch bytes_codec bytes_codec (rs_seasons_read\<lparr>m_isset := False\<rparr>)
      '''' '''' september_engine) = Inr (True, ''November'', ''Autumn,30,11'')"
    by (simp add: unserialize_def bytes_codec_def)
  from r4[THEN conjunct2, THEN conjunct2, THEN conjunct1] s
  have a6: "fst (recordset_fetch bytes_codec bytes_codec (rs_seasons_read\<lparr>m_isset := False\<rparr>)
            '''' '''' september_engine)
       = fst (recordset_fetch bytes_codec bytes_codec
               (rs_seasons_read\<lparr>m_cursor := Cursor (Secondary 0 0) None, m_isset := False\<rparr>)
               '''' '''' september_engine)"
    by blast
  have b3: "fst (recordset_fetch bytes_codec bytes_codec rs_seasons_read '''' '''' september_engine)
       = Inr (False, '''', '''')"
    by (simp add: recordset_fetch_def fetch_status_def c_pget_def seek_def next_fault_def
        september_faults september_seasons rs_seasons_read_def rs_type_defs status_defs)
  note r1 = rewind_restarts[of rs_joined, THEN conjunct1]
  note r2 = rewind_restarts[of rs_months_read "Primary 0" "Some 2" bytes_codec bytes_codec
      "''''" "''''" september_engine
      "[(''November'', ''November'', ''Autumn,30,11''), (''October'', ''October'', ''Autumn,31,10''),
           (''September'', ''September'', ''Autumn,30,9'')]"]
  note r3 = rewind_restarts[of rs_days30_read "Secondary 0 (Suc 0)" "Some 1" bytes_codec bytes_codec
      "''''" "''''" september_engine
      "[(''30'', ''November'', ''Autumn,30,11''), (''30'', ''September'', ''Autumn,30,9''),
           (''31'', ''October'', ''Autumn,31,10'')]" 0 "Suc 0" "''30''"]
  have j: "m_type rs_joined = BDB_RS_JOIN" by (simp add: rs_joined_def)
  have m: "m_type rs_months_read \<noteq> BDB_RS_JOIN \<and> m_type rs_months_read = BDB_RS_TABLE
      \<and> m_cursor rs_months_read = Cursor (Primary 0) (Some 2)"
    by (simp add: rs_months_read_def rs_days30_read_def rs_months_def rs_days30_def rs_type_defs)
  have d: "m_type rs_days30_read = BDB_RS_UNIQUE \<and> m_key rs_days30_read = Some ''30''
      \<and> m_cursor rs_days30_read = Cursor (Secondary 0 (Suc 0)) (Some 1)"
    by (simp add: rs_months_read_def rs_days30_read_def rs_months_def rs_days30_def rs_type_defs)
  from r1 j have a1: "recordset_rewind rs_joined = Inl BDB_ERROR_UNKNOWN" by simp
  from r2[THEN conjunct2, THEN conjunct1] m
  have a2: "recordset_rewind rs_months_read = Inr (rs_months_read\<lparr>m_isset := False\<rparr>)"
    by simp
  from r2[THEN conjunct2, THEN conjunct2, THEN conjunct2, THEN conjunct1]
    m september_faults september_months
  have "fst (recordset_fetch bytes_codec bytes_codec (rs_months_read\<lparr>m_isset := False\<rparr>) '''' ''''
            september_engine) =
      (case [(''November'', ''November'', ''Autumn,30,11''), (''October'', ''October'', ''Autumn,31,10''),
           (''September'', ''September'', ''Autumn,30,9'')] of
               [] \<Rightarrow> Inr (False, '''', '''')
             | x # xs \<Rightarrow> Inr (True, unserialize bytes_codec (fst x) '''',
                               unserialize bytes_codec (snd (snd x)) ''''))"
    by blast
  then have a3: "fst (recordset_fetch bytes_codec bytes_codec (rs_months_read\<lparr>m_isset := False\<rparr>)
      '''' '''' september_engine) = Inr (True, ''November'', ''Autumn,30,11'')"
    by (simp add: unserialize_def bytes_codec_def)
  from r3[THEN conjunct2, THEN conjunct2, THEN conjunct2, THEN conjunct2, THEN conjunct2]
    d september_faults september_days
  have "fst (recordset_fetch bytes_codec bytes_codec (rs_days30_read\<lparr>m_isset := False\<rparr>) '''' ''''
            september_engine) =
      (case key_find ''30'' [(''30'', ''November'', ''Autumn,30,11''),
              (''30'', ''September'', ''Autumn,30,9''), (''31'', ''October'', ''Autumn,31,10'')] of
               None \<Rightarrow> Inr (False, '''', '''')
             | Some (j, x) \<Rightarrow> Inr (True, unserialize bytes_codec (fst (snd x)) '''',
                               unserialize bytes_codec (snd (snd x)) ''''))"
    by blast
  then have a4: "fst (recordset_fetch bytes_codec bytes_codec (rs_days30_read\<lparr>m_isset := False\<rparr>)
      '''' '''' september_engine) = Inr (True, ''November'', ''Autumn,30,11'')"
    by (simp add: unserialize_def bytes_codec_def)
  have b1: "fst (recordset_fetch bytes_codec bytes_codec rs_months_read '''' '''' september_engine)
       = Inr (False, '''', '''')"
    by (simp add: recordset_fetch_def fetch_status_def c_get_def seek_def next_fault_def
        september_faults september_months rs_months_read_def rs_days30_read_def rs_months_def rs_days30_def rs_type_defs status_defs)
  have b2: "fst (recordset_fetch bytes_codec bytes_codec rs_days30_read '''' '''' september_engine)
       = Inr (False, '''', '''')"
    by (simp add: recordset_fetch_def fetch_status_def c_pget_def seek_def next_fault_def
        september_faults september_days rs_months_read_def rs_days30_read_def rs_months_def rs_days30_def rs_type_defs status_defs)
  from j a1 m a2 b1 a3 b2 a4 b3 a5 a6 show ?thesis by blast
qed

section \<open>Facts about sequences and the life of a database\<close>




















section \<open>Sequences count from one\<close>




section \<open>Facts about joins\<close>

lemma key_find_Some:
  "key_find k es = Some (j, x) \<Longrightarrow> j < length es \<and> es ! j = x \<and> fst x = k \<and> x \<in> set es"
proof (induction es arbitrary: j)
  case Nil
  then show ?case by simp
next
  case (Cons y ys)
  show ?case
  proof (cases "fst y = k")
    case True
    with Cons.prems show ?thesis by auto
  next
    case False
    with Cons.prems obtain j' where j': "key_find k ys = Some (j', x)" "j = Suc j'"
      by (auto split: option.splits)
    from Cons.IH[OF j'(1)] j'(2) show ?thesis by auto
  qed
qed

lemma key_find_None: "key_find k es = None \<longleftrightarrow> filter (\<lambda>x. fst x = k) es = []"
  by (induction es) (auto split: option.splits)

lemma key_find_drop:
  "key_find k es = Some (j, x) \<Longrightarrow> \<exists>rest. drop j es = x # rest"
proof -
  assume a: "key_find k es = Some (j, x)"
  from key_find_Some[OF a] have "j < length es" "es ! j = x" by auto
  then have "drop j es = x # drop (Suc j) es" by (metis Cons_nth_drop_Suc)
  then show ?thesis by blast
qed

lemma c_pget_set_nofault:
  assumes "faults e = []"
  shows "c_pget (Cursor (Secondary p i) pos) mk DB_SET e =
     (case db_content e (Secondary p i) of
        None \<Rightarrow> ((EINVAL, [], [], [], Cursor (Secondary p i) pos), e)
      | Some es \<Rightarrow>
          (case key_find mk es of
             None \<Rightarrow> ((DB_NOTFOUND, [], [], [], Cursor (Secondary p i) pos), e)
           | Some (j, x) \<Rightarrow>
               ((0, fst x, fst (snd x), snd (snd x), Cursor (Secondary p i) (Some j)), e)))"
  using assms
  by (simp add: c_pget_def seek_def next_fault_def split: option.splits)

lemma cursor_same: "m_cursor rs = c \<Longrightarrow> rs\<lparr>m_cursor := c\<rparr> = rs"
  by auto

lemma settle_idem: "settle e (settle e rs) = settle e rs"
  by (auto simp: settle_def split: option.splits DBC.splits DBH.splits)

lemma settle_key: "m_key (settle e rs) = m_key rs"
  by (auto simp: settle_def split: option.splits DBC.splits DBH.splits)

lemma filtered_settle: "filtered_records e (settle e rs) = filtered_records e rs"
  by (auto simp: settle_def filtered_records_def split: option.splits DBC.splits DBH.splits)

text \<open>One round of the loop, on an engine that does not fail.\<close>

lemma join_round:
  assumes "faults e = []" "m_key rs = Some mk"
    and "c_pget (m_cursor rs) mk DB_SET e = ((res, sk, k, d, c'), e')"
  shows "e' = e
     \<and> (res = 0 \<longrightarrow> rs\<lparr>m_cursor := c', m_isset := True\<rparr> = settle e rs \<and> filtered_records e rs \<noteq> [])
     \<and> (res \<noteq> 0 \<longrightarrow> rs\<lparr>m_cursor := c'\<rparr> = settle e rs \<and> filtered_records e rs = [])"
proof (cases "m_cursor rs")
  case (JoinCursor p crit n)
  from assms(3) JoinCursor
  have "c_pget (JoinCursor p crit n) mk DB_SET e = ((res, sk, k, d, c'), e')" by simp
  with assms(1) have o: "res = EINVAL" "c' = JoinCursor p crit n" "e' = e"
    by (auto simp: c_pget_def next_fault_def)
  have s: "settle e rs = rs" "filtered_records e rs = []"
    using JoinCursor assms(2) by (simp_all add: settle_def filtered_records_def)
  from o s JoinCursor show ?thesis
    by (simp add: cursor_same status_defs)
next
  case (Cursor h pos)
  show ?thesis
  proof (cases h)
    case (Primary p)
    from assms(3) Cursor Primary
    have "c_pget (Cursor (Primary p) pos) mk DB_SET e = ((res, sk, k, d, c'), e')" by simp
    with assms(1) have o: "res = EINVAL" "c' = Cursor (Primary p) pos" "e' = e"
      by (auto simp: c_pget_def next_fault_def)
    have s: "settle e rs = rs" "filtered_records e rs = []"
      using Cursor Primary assms(2) by (simp_all add: settle_def filtered_records_def)
    from o s Cursor Primary show ?thesis
      by (simp add: cursor_same status_defs)
  next
    case (Secondary p i)
    from assms(3) Cursor Secondary
    have pg: "c_pget (Cursor (Secondary p i) pos) mk DB_SET e = ((res, sk, k, d, c'), e')"
      by simp
    show ?thesis
    proof (cases "db_content e (Secondary p i)")
      case None
      with pg assms(1) have o: "res = EINVAL" "c' = Cursor (Secondary p i) pos" "e' = e"
        by (auto simp: c_pget_set_nofault)
      have s: "settle e rs = rs" "filtered_records e rs = []"
        using Cursor Secondary None assms(2) by (simp_all add: settle_def filtered_records_def)
      from o s Cursor Secondary show ?thesis
        by (simp add: cursor_same status_defs)
    next
      case (Some es)
      show ?thesis
      proof (cases "key_find mk es")
        case None
        with pg assms(1) Some
        have o: "res = DB_NOTFOUND" "c' = Cursor (Secondary p i) pos" "e' = e"
          by (auto simp: c_pget_set_nofault)
        have s: "settle e rs = rs" "filtered_records e rs = []"
          using Cursor Secondary Some None assms(2) key_find_None[of mk es]
          by (simp_all add: settle_def filtered_records_def)
        from o s Cursor Secondary show ?thesis
          by (simp add: cursor_same status_defs)
      next
        case (Some jx)
        obtain j x where jx: "jx = (j, x)" by (cases jx)
        from Some jx have kf: "key_find mk es = Some (j, x)" by simp
        with pg assms(1) \<open>db_content e (Secondary p i) = Some es\<close>
        have o: "res = 0" "c' = Cursor (Secondary p i) (Some j)" "e' = e"
          by (auto simp: c_pget_set_nofault)
        have ne: "filter (\<lambda>x. fst x = mk) es \<noteq> []"
          using kf key_find_None[of mk es] by simp
        have s: "settle e rs = rs\<lparr>m_cursor := Cursor (Secondary p i) (Some j), m_isset := True\<rparr>"
          "filtered_records e rs \<noteq> []"
          using Cursor Secondary \<open>db_content e (Secondary p i) = Some es\<close> kf ne assms(2)
          by (simp_all add: settle_def filtered_records_def)
        from o s show ?thesis by simp
      qed
    qed
  qed
qed

lemma join_loop_nofault:
  "faults e = [] \<Longrightarrow> \<forall>p \<in> set lst. m_key (hp p) \<noteq> None \<Longrightarrow>
   join_loop lst isset hp e =
     (Inr (isset \<and> list_all (\<lambda>p. filtered_records e (hp p) \<noteq> []) lst),
      (\<lambda>a. if a \<in> set lst then settle e (hp a) else hp a), e)"
proof (induction lst arbitrary: isset hp)
  case Nil
  then show ?case by simp
next
  case (Cons p ps)
  from Cons.prems(2) obtain mk where mk: "m_key (hp p) = Some mk" by auto
  obtain res sk k d c' e' where pg: "c_pget (m_cursor (hp p)) mk DB_SET e = ((res, sk, k, d, c'), e')"
    by (metis prod_cases5 surj_pair)
  note r = join_round[OF Cons.prems(1) mk pg]
  let ?hp1 = "hp(p := settle e (hp p))"
  have keys1: "\<forall>q \<in> set ps. m_key (?hp1 q) \<noteq> None"
    using Cons.prems(2) by (auto simp: settle_key)
  have step: "join_loop (p # ps) isset hp e =
      join_loop ps (isset \<and> filtered_records e (hp p) \<noteq> []) ?hp1 e"
    using mk pg r by (cases "res = 0") auto
  have fr: "filtered_records e (?hp1 q) = filtered_records e (hp q)" for q
    by (simp add: filtered_settle)
  have heap: "(\<lambda>a. if a \<in> set ps then settle e (?hp1 a) else ?hp1 a)
      = (\<lambda>a. if a \<in> set (p # ps) then settle e (hp a) else hp a)"
    by (auto simp: settle_idem fun_eq_iff)
  show ?case
    unfolding step Cons.IH[OF Cons.prems(1) keys1] heap
    by (auto simp: list_all_iff filtered_settle)
qed

lemma recordset_join_heap:
  assumes "faults e = []" "\<forall>p \<in> set lst. m_key (hp p) \<noteq> None"
  shows "fst (snd (recordset_join tbl lst hp e))
       = (\<lambda>a. if a \<in> set lst then settle e (hp a) else hp a)"
  using join_loop_nofault[OF assms, of True]
  by (simp add: recordset_join_def split: prod.splits)

lemma fetch_next_dup:
  assumes "faults e = []" "m_type rs = BDB_RS_UNIQUE" "m_key rs = Some mk" "m_isset rs"
    "m_cursor rs = Cursor (Secondary P i) (Some j)" "db_content e (Secondary P i) = Some es"
    "key_find mk es = Some (j, x)"
  shows "fst (recordset_fetch kc dc rs key data e) =
     (case drop (Suc j) es of
        [] \<Rightarrow> Inr (False, key, data)
      | y # ys \<Rightarrow>
          if fst y = mk
          then Inr (True, unserialize kc (fst (snd y)) key, unserialize dc (snd (snd y)) data)
          else Inr (False, key, data))"
proof -
  from key_find_Some[OF assms(7)] have j: "j < length es" "es ! j = x" "fst x = mk" by auto
  then have d: "drop j es = x # drop (Suc j) es" by (metis Cons_nth_drop_Suc)
  show ?thesis
    using assms(1-6) d j(3)
    by (auto simp: recordset_fetch_def fetch_status_def c_pget_def seek_def next_fault_def
        rs_type_defs status_defs split: list.splits)
qed

section \<open>A join repositions its sources\<close>

text \<open>
  C10. Constructing a join changes the recordsets of the join list, which the join does
  not own: the cursor of each member is sent to the member's key, and every member
  whose index has an entry with that key is marked as set; so the next fetch on such a
  member does not return its first record, as it would have before, but the entry
  after it if that has the same key, and nothing otherwise. A member without a
  matching entry, and every recordset not in the list, is left as it was. Stated for
  an engine that does not fail on its own.
\<close>

theorem join_repositions_sources:
  "faults e = [] \<and> (\<forall>p \<in> set lst. index_key_of e P (hp p)) \<longrightarrow>
     (\<forall>a. a \<notin> set lst \<longrightarrow> fst (snd (recordset_join tbl lst hp e)) a = hp a)
   \<and> (\<forall>p \<in> set lst. \<forall>mk i pos es.
         m_key (hp p) = Some mk \<and> m_cursor (hp p) = Cursor (Secondary P i) pos
         \<and> db_content e (Secondary P i) = Some es \<longrightarrow>
         (case key_find mk es of
            None \<Rightarrow> fst (snd (recordset_join tbl lst hp e)) p = hp p
          | Some (j, x) \<Rightarrow>
              fst (snd (recordset_join tbl lst hp e)) p
                = (hp p)\<lparr>m_cursor := Cursor (Secondary P i) (Some j), m_isset := True\<rparr>
              \<and> fst (recordset_fetch kc dc ((hp p)\<lparr>m_isset := False\<rparr>) key data e)
                  = Inr (True, unserialize kc (fst (snd x)) key, unserialize dc (snd (snd x)) data)
              \<and> fst (recordset_fetch kc dc (fst (snd (recordset_join tbl lst hp e)) p) key data e)
                  = (case drop (Suc j) es of
                       [] \<Rightarrow> Inr (False, key, data)
                     | y # ys \<Rightarrow>
                         if fst y = mk
                         then Inr (True, unserialize kc (fst (snd y)) key,
                                   unserialize dc (snd (snd y)) data)
                         else Inr (False, key, data))))"
proof (intro impI)
  assume a: "faults e = [] \<and> (\<forall>p \<in> set lst. index_key_of e P (hp p))"
  then have nf: "faults e = []" and keys: "\<forall>p \<in> set lst. m_key (hp p) \<noteq> None"
    by (auto simp: index_key_of_def)
  note heap = recordset_join_heap[OF nf keys, of tbl]
  have frame: "\<forall>a. a \<notin> set lst \<longrightarrow> fst (snd (recordset_join tbl lst hp e)) a = hp a"
    by (simp add: heap)
  have each: "case key_find mk es of
            None \<Rightarrow> fst (snd (recordset_join tbl lst hp e)) p = hp p
          | Some (j, x) \<Rightarrow>
              fst (snd (recordset_join tbl lst hp e)) p
                = (hp p)\<lparr>m_cursor := Cursor (Secondary P i) (Some j), m_isset := True\<rparr>
              \<and> fst (recordset_fetch kc dc ((hp p)\<lparr>m_isset := False\<rparr>) key data e)
                  = Inr (True, unserialize kc (fst (snd x)) key, unserialize dc (snd (snd x)) data)
              \<and> fst (recordset_fetch kc dc (fst (snd (recordset_join tbl lst hp e)) p) key data e)
                  = (case drop (Suc j) es of
                       [] \<Rightarrow> Inr (False, key, data)
                     | y # ys \<Rightarrow>
                         if fst y = mk
                         then Inr (True, unserialize kc (fst (snd y)) key,
                                   unserialize dc (snd (snd y)) data)
                         else Inr (False, key, data))"
    if p: "p \<in> set lst" and h: "m_key (hp p) = Some mk"
      "m_cursor (hp p) = Cursor (Secondary P i) pos" "db_content e (Secondary P i) = Some es"
    for p mk i pos es
  proof (cases "key_find mk es")
    case None
    with p h show ?thesis by (simp add: heap settle_def)
  next
    case (Some jx)
    obtain j x where jx: "jx = (j, x)" by (cases jx)
    from Some jx have kf: "key_find mk es = Some (j, x)" by simp
    from a p have ty: "m_type (hp p) = BDB_RS_UNIQUE" by (simp add: index_key_of_def)
    let ?rs' = "(hp p)\<lparr>m_cursor := Cursor (Secondary P i) (Some j), m_isset := True\<rparr>"
    have 1: "fst (snd (recordset_join tbl lst hp e)) p = ?rs'"
      using p h kf by (simp add: heap settle_def)
    have 2: "fst (recordset_fetch kc dc ((hp p)\<lparr>m_isset := False\<rparr>) key data e)
        = Inr (True, unserialize kc (fst (snd x)) key, unserialize dc (snd (snd x)) data)"
      using fetch_first_unique[OF nf ty h(1) h(2) h(3), of kc dc key data] kf by simp
    have 3: "fst (recordset_fetch kc dc ?rs' key data e)
        = (case drop (Suc j) es of
             [] \<Rightarrow> Inr (False, key, data)
           | y # ys \<Rightarrow>
               if fst y = mk
               then Inr (True, unserialize kc (fst (snd y)) key, unserialize dc (snd (snd y)) data)
               else Inr (False, key, data))"
      by (rule fetch_next_dup[OF nf _ _ _ _ h(3) kf]) (simp_all add: ty h)
    from 1 2 3 kf show ?thesis by simp
  qed
  from frame each
  show "(\<forall>a. a \<notin> set lst \<longrightarrow> fst (snd (recordset_join tbl lst hp e)) a = hp a)
   \<and> (\<forall>p \<in> set lst. \<forall>mk i pos es.
         m_key (hp p) = Some mk \<and> m_cursor (hp p) = Cursor (Secondary P i) pos
         \<and> db_content e (Secondary P i) = Some es \<longrightarrow>
         (case key_find mk es of
            None \<Rightarrow> fst (snd (recordset_join tbl lst hp e)) p = hp p
          | Some (j, x) \<Rightarrow>
              fst (snd (recordset_join tbl lst hp e)) p
                = (hp p)\<lparr>m_cursor := Cursor (Secondary P i) (Some j), m_isset := True\<rparr>
              \<and> fst (recordset_fetch kc dc ((hp p)\<lparr>m_isset := False\<rparr>) key data e)
                  = Inr (True, unserialize kc (fst (snd x)) key, unserialize dc (snd (snd x)) data)
              \<and> fst (recordset_fetch kc dc (fst (snd (recordset_join tbl lst hp e)) p) key data e)
                  = (case drop (Suc j) es of
                       [] \<Rightarrow> Inr (False, key, data)
                     | y # ys \<Rightarrow>
                         if fst y = mk
                         then Inr (True, unserialize kc (fst (snd y)) key,
                                   unserialize dc (snd (snd y)) data)
                         else Inr (False, key, data))))"
    by blast
qed

theorem join_repositions_sources_witness:
  "faults september_engine = []
   \<and> index_key_of september_engine 0 (test_heap 0)
   \<and> index_key_of september_engine 0 (test_heap 2)
   \<and> fst (snd (recordset_join tmonth [0, 2] test_heap september_engine)) 1 = test_heap 1
   \<and> fst (snd (recordset_join tmonth [0, 2] test_heap september_engine)) 0
       = rs_autumn\<lparr>m_cursor := Cursor (Secondary 0 0) (Some 0), m_isset := True\<rparr>
   \<and> fst (snd (recordset_join tmonth [0, 2] test_heap september_engine)) 2 = rs_days32
   \<and> fst (recordset_fetch bytes_codec bytes_codec (rs_autumn\<lparr>m_isset := False\<rparr>) '''' ''''
            september_engine) = Inr (True, ''November'', ''Autumn,30,11'')
   \<and> fst (recordset_fetch bytes_codec bytes_codec
            (fst (snd (recordset_join tmonth [0, 2] test_heap september_engine)) 0) '''' ''''
            september_engine) = Inr (True, ''October'', ''Autumn,31,10'')"
proof -
  let ?hp' = "fst (snd (recordset_join tmonth [0, 2] test_heap september_engine))"
  have i0: "index_key_of september_engine 0 (test_heap 0)"
    by (simp add: index_key_of_def rs_fixture_defs september_engine_def fixture_defs)
  have i2: "index_key_of september_engine 0 (test_heap 2)"
    by (simp add: index_key_of_def rs_fixture_defs september_engine_def fixture_defs)
  from i0 i2 have hyp: "faults september_engine = []
      \<and> (\<forall>p \<in> set [0, 2]. index_key_of september_engine 0 (test_heap p))"
    by (simp add: september_faults)
  note t = join_repositions_sources[of september_engine "[0, 2]" 0 test_heap tmonth
      bytes_codec bytes_codec "''''" "''''", rule_format, OF hyp]
  from t[THEN conjunct1, rule_format, of 1]
  have f1: "?hp' 1 = test_heap 1" by simp
  have h0: "m_key (test_heap 0) = Some ''Autumn'' \<and> m_cursor (test_heap 0) = Cursor (Secondary 0 0) None
      \<and> db_content september_engine (Secondary 0 0) =
          Some [(''Autumn'', ''November'', ''Autumn,30,11''), (''Autumn'', ''October'', ''Autumn,31,10''),
                (''Autumn'', ''September'', ''Autumn,30,9'')]"
    by (simp add: rs_fixture_defs september_seasons)
  have h2: "m_key (test_heap 2) = Some ''32'' \<and> m_cursor (test_heap 2) = Cursor (Secondary 0 (Suc 0)) None
      \<and> db_content september_engine (Secondary 0 (Suc 0)) =
          Some [(''30'', ''November'', ''Autumn,30,11''), (''30'', ''September'', ''Autumn,30,9''),
                (''31'', ''October'', ''Autumn,31,10'')]"
    by (simp add: rs_fixture_defs september_days)
  have in0: "(0::nat) \<in> set [0, 2]" and in2: "(2::nat) \<in> set [0, 2]" by simp_all
  from t[THEN conjunct2, rule_format, OF in0 h0]
  have a0: "?hp' 0 = (test_heap 0)\<lparr>m_cursor := Cursor (Secondary 0 0) (Some 0), m_isset := True\<rparr>
      \<and> fst (recordset_fetch bytes_codec bytes_codec ((test_heap 0)\<lparr>m_isset := False\<rparr>) '''' ''''
            september_engine) = Inr (True, ''November'', ''Autumn,30,11'')
      \<and> fst (recordset_fetch bytes_codec bytes_codec (?hp' 0) '''' '''' september_engine)
          = Inr (True, ''October'', ''Autumn,31,10'')"
    by (clarsimp simp: unserialize_def bytes_codec_def)
  from t[THEN conjunct2, rule_format, OF in2 h2]
  have a2: "?hp' 2 = test_heap 2"
    by simp
  have th: "test_heap 0 = rs_autumn" "test_heap 2 = rs_days32" by (simp_all add: test_heap_def)
  from a0 a2 th f1 i0 i2 september_faults show ?thesis by clarsimp
qed

section \<open>Facts about what a join cursor returns\<close>

lemma set_map_filter: "set (List.map_filter f xs) = {y. \<exists>x \<in> set xs. f x = Some y}"
  by (induction xs) (auto split: option.splits)

lemma set_sec_entries:
  "set (sec_entries s rs) = {(sk, pk, pd). (pk, pd) \<in> set rs \<and> s_callback s pk pd = Some sk}"
  by (force simp: sec_entries_def set_map_filter)

lemma filtered_records_member:
  assumes "m_key rs = Some mk" "m_cursor rs = Cursor (Secondary P i) pos"
    "i < length (secs (dbs e P))"
  shows "(pk, pd) \<in> set (filtered_records e rs)
     \<longleftrightarrow> (pk, pd) \<in> set (recs (dbs e P)) \<and> s_callback (secs (dbs e P) ! i) pk pd = Some mk"
  using assms
  by (auto simp: filtered_records_def db_content_def set_sec_entries image_iff)

lemma settled_criterion:
  assumes "m_key rs = Some mk" "m_cursor rs = Cursor (Secondary P i) pos"
    "i < length (secs (dbs e P))" "filtered_records e rs \<noteq> []"
  shows "join_criterion e P (m_cursor (settle e rs)) = Some (i, Some mk)"
proof -
  let ?es = "sec_entries (secs (dbs e P) ! i) (recs (dbs e P))"
  have c: "db_content e (Secondary P i) = Some ?es"
    using assms(3) by (simp add: db_content_def)
  from assms c have "filter (\<lambda>x. fst x = mk) ?es \<noteq> []"
    by (simp add: filtered_records_def)
  then obtain j x where kf: "key_find mk ?es = Some (j, x)"
    using key_find_None[of mk ?es] by (cases "key_find mk ?es") auto
  from key_find_drop[OF kf] obtain rest where d: "drop j ?es = x # rest" by blast
  from key_find_Some[OF kf] have fx: "fst x = mk" by simp
  have s: "m_cursor (settle e rs) = Cursor (Secondary P i) (Some j)"
    using assms(1,2) c kf by (simp add: settle_def)
  show ?thesis
    using s c d fx by (simp add: cursor_key_def)
qed

lemma settled_criterion_some:
  assumes "m_key rs = Some mk" "m_cursor rs = Cursor (Secondary P i) pos"
  shows "join_criterion e P (m_cursor (settle e rs)) \<noteq> None"
  using assms
  by (auto simp: settle_def split: option.splits)

lemma join_match_sources:
  assumes "(pk, pd) \<in> set (recs (dbs e P))"
  shows "\<forall>p \<in> set lst. index_key_of e P (hp p) \<and> filtered_records e (hp p) \<noteq> [] \<Longrightarrow>
     join_match (secs (dbs e P))
       (List.map_filter (join_criterion e P) (map (\<lambda>p. m_cursor (settle e (hp p))) lst)) pk pd
     \<longleftrightarrow> list_all (\<lambda>p. (pk, pd) \<in> set (filtered_records e (hp p))) lst"
proof (induction lst)
  case Nil
  show ?case by (simp add: join_match_def)
next
  case (Cons p ps)
  from Cons.prems obtain mk i pos where
    k: "m_key (hp p) = Some mk" and c: "m_cursor (hp p) = Cursor (Secondary P i) pos"
    and i: "i < length (secs (dbs e P))" and ne: "filtered_records e (hp p) \<noteq> []"
    by (auto simp: index_key_of_def)
  have crit: "join_criterion e P (m_cursor (settle e (hp p))) = Some (i, Some mk)"
    using k c i ne by (rule settled_criterion)
  have mem: "(pk, pd) \<in> set (filtered_records e (hp p))
      \<longleftrightarrow> s_callback (secs (dbs e P) ! i) pk pd = Some mk"
    using filtered_records_member[OF k c i, of pk pd] assms by simp
  have ih: "join_match (secs (dbs e P))
       (List.map_filter (join_criterion e P) (map (\<lambda>p. m_cursor (settle e (hp p))) ps)) pk pd
     \<longleftrightarrow> list_all (\<lambda>p. (pk, pd) \<in> set (filtered_records e (hp p))) ps"
    using Cons.prems by (intro Cons.IH) simp
  show ?case
    using crit mem ih i by (simp add: join_match_def)
qed

lemma recordset_join_nofault:
  assumes "faults e = []" "m_db tbl = Primary P" "lst \<noteq> []"
    "\<forall>p \<in> set lst. index_key_of e P (hp p)"
  shows "recordset_join tbl lst hp e =
     (Inr \<lparr>m_cursor = JoinCursor P (List.map_filter (join_criterion e P)
                                     (map (\<lambda>p. m_cursor (settle e (hp p))) lst)) 0,
           m_key = None, m_type = BDB_RS_JOIN,
           m_isset = list_all (\<lambda>p. filtered_records e (hp p) \<noteq> []) lst\<rparr>,
      (\<lambda>a. if a \<in> set lst then settle e (hp a) else hp a), e)"
proof -
  from assms(4) have keys: "\<forall>p \<in> set lst. m_key (hp p) \<noteq> None"
    by (auto simp: index_key_of_def)
  note loop = join_loop_nofault[OF assms(1) keys, of True]
  let ?hp' = "\<lambda>a. if a \<in> set lst then settle e (hp a) else hp a"
  have cl: "map (\<lambda>p. m_cursor (?hp' p)) lst = map (\<lambda>p. m_cursor (settle e (hp p))) lst"
    by simp
  have ok: "\<not> list_ex (\<lambda>c. join_criterion e P c = None)
      (map (\<lambda>p. m_cursor (settle e (hp p))) lst)"
  proof -
    have "join_criterion e P (m_cursor (settle e (hp p))) \<noteq> None" if "p \<in> set lst" for p
    proof -
      from assms(4) that obtain mk i pos where
        "m_key (hp p) = Some mk" "m_cursor (hp p) = Cursor (Secondary P i) pos"
        by (auto simp: index_key_of_def)
      then show ?thesis by (rule settled_criterion_some)
    qed
    then show ?thesis by (auto simp: list_ex_iff)
  qed
  have dj: "db_join (Primary P) (map (\<lambda>p. m_cursor (settle e (hp p))) lst) e =
      ((0, JoinCursor P (List.map_filter (join_criterion e P)
                           (map (\<lambda>p. m_cursor (settle e (hp p))) lst)) 0), e)"
    using assms(1,3) ok by (simp add: db_join_def next_fault_def)
  show ?thesis
    unfolding recordset_join_def loop
    using dj assms(2) by (simp add: cl)
qed

lemma fetch_join:
  assumes "faults e = []"
  shows "recordset_fetch kc dc
           \<lparr>m_cursor = JoinCursor P crit k, m_key = None, m_type = BDB_RS_JOIN, m_isset = True\<rparr>
           key data e =
     (case drop k (filter (\<lambda>(pk, pd). join_match (secs (dbs e P)) crit pk pd) (recs (dbs e P))) of
        [] \<Rightarrow> (Inr (False, key, data),
               \<lparr>m_cursor = JoinCursor P crit k, m_key = None, m_type = BDB_RS_JOIN, m_isset = True\<rparr>,
               e)
      | x # xs \<Rightarrow> (Inr (True, ParseFromString kc (fst x), ParseFromString dc (snd x)),
                   \<lparr>m_cursor = JoinCursor P crit (Suc k), m_key = None, m_type = BDB_RS_JOIN,
                    m_isset = True\<rparr>, e))"
  using assms
  by (simp add: recordset_fetch_def fetch_status_def c_get_def next_fault_def rs_type_defs
      status_defs unserialize_def split: list.splits)

lemma fetch_join_unset:
  assumes "m_type rs = BDB_RS_JOIN" "\<not> m_isset rs"
  shows "recordset_fetch kc dc rs key data e = (Inr (False, key, data), rs, e)"
  using assms
  by (simp add: recordset_fetch_def fetch_status_def rs_type_defs status_defs cursor_same)

lemma fetch_loop_join_unset:
  assumes "m_type rs = BDB_RS_JOIN" "\<not> m_isset rs"
  shows "fst (fetch_loop n kc dc rs key data e) = ([], 0 < n)"
  using assms by (cases n) (simp_all add: fetch_join_unset)

lemma fetch_loop_join:
  assumes "faults e = []"
  shows "fst (fetch_loop n kc dc
           \<lparr>m_cursor = JoinCursor P crit k, m_key = None, m_type = BDB_RS_JOIN, m_isset = True\<rparr>
           key data e) =
     (map (\<lambda>(pk, pd). (ParseFromString kc pk, ParseFromString dc pd))
        (take n (drop k (filter (\<lambda>(pk, pd). join_match (secs (dbs e P)) crit pk pd)
                           (recs (dbs e P))))),
      length (filter (\<lambda>(pk, pd). join_match (secs (dbs e P)) crit pk pd) (recs (dbs e P))) - k < n)"
proof -
  define ms where "ms = filter (\<lambda>(pk, pd). join_match (secs (dbs e P)) crit pk pd) (recs (dbs e P))"
  define dec where "dec = (\<lambda>(pk, pd). (ParseFromString kc pk, ParseFromString dc pd))"
  have fj: "recordset_fetch kc dc
           \<lparr>m_cursor = JoinCursor P crit k, m_key = None, m_type = BDB_RS_JOIN, m_isset = True\<rparr>
           key data e =
     (case drop k ms of
        [] \<Rightarrow> (Inr (False, key, data),
               \<lparr>m_cursor = JoinCursor P crit k, m_key = None, m_type = BDB_RS_JOIN, m_isset = True\<rparr>,
               e)
      | x # xs \<Rightarrow> (Inr (True, ParseFromString kc (fst x), ParseFromString dc (snd x)),
                   \<lparr>m_cursor = JoinCursor P crit (Suc k), m_key = None, m_type = BDB_RS_JOIN,
                    m_isset = True\<rparr>, e))" for k key data
    unfolding ms_def by (rule fetch_join[OF assms])
  have main: "fst (fetch_loop n kc dc
           \<lparr>m_cursor = JoinCursor P crit k, m_key = None, m_type = BDB_RS_JOIN, m_isset = True\<rparr>
           key data e) = (map dec (take n (drop k ms)), length ms - k < n)" for k key data
  proof (induction n arbitrary: k key data)
    case 0
    show ?case by simp
  next
    case (Suc n)
    show ?case
    proof (cases "drop k ms")
      case Nil
      then have "length ms \<le> k" by simp
      with Nil show ?thesis by (simp add: fj)
    next
      case (Cons x xs)
      then have lt: "k < length ms" by (cases "k < length ms") auto
      from Cons have d: "drop (Suc k) ms = xs"
        by (metis drop_Suc list.sel(3) tl_drop)
      have fin: "(length ms - Suc k < n) = (length ms - k < Suc n)"
        using lt by auto
      have dx: "dec x = (ParseFromString kc (fst x), ParseFromString dc (snd x))"
        by (simp add: dec_def split_beta)
      have ih: "fst (fetch_loop n kc dc
           \<lparr>m_cursor = JoinCursor P crit (Suc k), m_key = None, m_type = BDB_RS_JOIN,
            m_isset = True\<rparr> (ParseFromString kc (fst x)) (ParseFromString dc (snd x)) e)
          = (map dec (take n xs), length ms - Suc k < n)"
        using Suc.IH[of "Suc k"] d by simp
      have "fst (fetch_loop (Suc n) kc dc
           \<lparr>m_cursor = JoinCursor P crit k, m_key = None, m_type = BDB_RS_JOIN, m_isset = True\<rparr>
           key data e) = (dec x # map dec (take n xs), length ms - Suc k < n)"
        using ih by (auto simp: fj Cons dx split: prod.splits)
      then show ?thesis using Cons fin by simp
    qed
  qed
  show ?thesis
    using main[of k key data] unfolding ms_def dec_def .
qed

lemma joined_records_set:
  assumes "lst \<noteq> []" "\<forall>p \<in> set lst. index_key_of e P (hp p)"
  shows "set (joined_records e P hp lst) = (\<Inter>p \<in> set lst. set (filtered_records e (hp p)))"
proof -
  from assms(1) obtain q where q: "q \<in> set lst" by (cases lst) auto
  with assms(2) obtain mk i pos where
    "m_key (hp q) = Some mk" "m_cursor (hp q) = Cursor (Secondary P i) pos"
    "i < length (secs (dbs e P))"
    by (auto simp: index_key_of_def)
  then have sub: "set (filtered_records e (hp q)) \<subseteq> set (recs (dbs e P))"
    using filtered_records_member by fastforce
  show ?thesis
    using q sub by (auto simp: joined_records_def list_all_iff)
qed

lemma joined_records_empty:
  "p \<in> set lst \<Longrightarrow> filtered_records e (hp p) = [] \<Longrightarrow> joined_records e P hp lst = []"
  by (force simp: joined_records_def list_all_iff filter_empty_conv)

lemma join_filter_is_joined:
  assumes "\<forall>p \<in> set lst. index_key_of e P (hp p) \<and> filtered_records e (hp p) \<noteq> []"
  shows "filter (\<lambda>(pk, pd). join_match (secs (dbs e P))
            (List.map_filter (join_criterion e P) (map (\<lambda>p. m_cursor (settle e (hp p))) lst)) pk pd)
           (recs (dbs e P))
       = joined_records e P hp lst"
  unfolding joined_records_def
proof (rule filter_cong[OF refl])
  fix r assume r: "r \<in> set (recs (dbs e P))"
  obtain pk pd where pr: "r = (pk, pd)" by (cases r)
  from r pr have m: "(pk, pd) \<in> set (recs (dbs e P))" by simp
  show "(case r of (pk, pd) \<Rightarrow> join_match (secs (dbs e P))
            (List.map_filter (join_criterion e P) (map (\<lambda>p. m_cursor (settle e (hp p))) lst)) pk pd)
       = list_all (\<lambda>p. r \<in> set (filtered_records e (hp p))) lst"
    using join_match_sources[OF m assms] pr by simp
qed

lemma september_recs:
  "recs (dbs september_engine 0)
     = [(''November'', ''Autumn,30,11''), (''October'', ''Autumn,31,10''),
        (''September'', ''Autumn,30,9'')]"
  by (simp add: september_engine_def)

lemma september_filtered:
  "filtered_records september_engine (test_heap 0)
     = [(''November'', ''Autumn,30,11''), (''October'', ''Autumn,31,10''),
        (''September'', ''Autumn,30,9'')]"
  "filtered_records september_engine (test_heap (Suc 0))
     = [(''November'', ''Autumn,30,11''), (''September'', ''Autumn,30,9'')]"
  "filtered_records september_engine (test_heap 2) = []"
  by (simp_all add: filtered_records_def rs_fixture_defs september_seasons september_days)

lemma september_indexed:
  "index_key_of september_engine 0 (test_heap 0)"
  "index_key_of september_engine 0 (test_heap (Suc 0))"
  "index_key_of september_engine 0 (test_heap 2)"
  by (simp_all add: index_key_of_def rs_fixture_defs september_engine_def fixture_defs)

lemma september_joined:
  "joined_records september_engine 0 test_heap [0, Suc 0]
     = [(''November'', ''Autumn,30,11''), (''September'', ''Autumn,30,9'')]"
  "joined_records september_engine 0 test_heap [0, 2] = []"
  by (simp_all add: joined_records_def september_filtered september_recs)

section \<open>Reading a recordset filtered by a key\<close>

text \<open>Entries sorted by key: the entries with one key are a contiguous run.\<close>

lemma sorted_filter_run:
  "sorted (map fst es) \<Longrightarrow>
   filter (\<lambda>x. fst x = k) es = takeWhile (\<lambda>x. fst x = k) (dropWhile (\<lambda>x. fst x \<noteq> k) es)"
proof (induction es)
  case Nil
  show ?case by simp
next
  case (Cons y ys)
  show ?case
  proof (cases "fst y = k")
    case False
    with Cons show ?thesis by simp
  next
    case True
    from Cons.prems have le: "\<forall>z \<in> set ys. k \<le> fst z" using True by auto
    have run: "filter (\<lambda>x. fst x = k) ys = takeWhile (\<lambda>x. fst x = k) ys"
      using Cons.prems le
    proof (induction ys)
      case Nil
      show ?case by simp
    next
      case (Cons z zs)
      show ?case
      proof (cases "fst z = k")
        case True
        with Cons show ?thesis by simp
      next
        case False
        with Cons.prems have "k < fst z" by auto
        with Cons.prems have "\<forall>w \<in> set zs. fst w \<noteq> k" by fastforce
        then have "filter (\<lambda>x. fst x = k) zs = []" by (simp add: filter_empty_conv)
        with False show ?thesis by simp
      qed
    qed
    with True show ?thesis by simp
  qed
qed

lemma sorted_sec_entries: "sorted (map fst (sec_entries s rs))"
  by (simp add: sec_entries_def)

lemma key_find_dropWhile:
  "key_find k es = Some (j, x) \<Longrightarrow> drop j es = dropWhile (\<lambda>x. fst x \<noteq> k) es"
proof (induction es arbitrary: j)
  case Nil
  then show ?case by simp
next
  case (Cons y ys)
  show ?case
  proof (cases "fst y = k")
    case True
    with Cons.prems show ?thesis by auto
  next
    case False
    with Cons.prems obtain j' where j': "key_find k ys = Some (j', x)" "j = Suc j'"
      by (auto split: option.splits)
    from Cons.IH[OF j'(1)] j'(2) False show ?thesis by simp
  qed
qed

lemma fetch_loop_hit:
  assumes "recordset_fetch kc dc rs key data e = (Inr (True, k', d'), rs', e')"
  shows "fst (fetch_loop (Suc n) kc dc rs key data e) =
     ((k', d') # fst (fst (fetch_loop n kc dc rs' k' d' e')),
      snd (fst (fetch_loop n kc dc rs' k' d' e')))"
  using assms by (simp add: split_beta)

lemma fetch_loop_miss:
  assumes "recordset_fetch kc dc rs key data e = (Inr (False, k', d'), rs', e')"
  shows "fst (fetch_loop (Suc n) kc dc rs key data e) = ([], True)"
  using assms by simp

lemma fetch_unique_next:
  assumes "faults e = []" "db_content e (Secondary P i) = Some es"
    "drop q es = cur # rest" "fst cur = mk"
  shows "recordset_fetch kc dc
           \<lparr>m_cursor = Cursor (Secondary P i) (Some q), m_key = Some mk, m_type = BDB_RS_UNIQUE,
            m_isset = True\<rparr> key data e =
     (case rest of
        [] \<Rightarrow> (Inr (False, key, data),
               \<lparr>m_cursor = Cursor (Secondary P i) (Some q), m_key = Some mk,
                m_type = BDB_RS_UNIQUE, m_isset = True\<rparr>, e)
      | y # ys \<Rightarrow>
          if fst y = mk
          then (Inr (True, ParseFromString kc (fst (snd y)), ParseFromString dc (snd (snd y))),
                \<lparr>m_cursor = Cursor (Secondary P i) (Some (Suc q)), m_key = Some mk,
                 m_type = BDB_RS_UNIQUE, m_isset = True\<rparr>, e)
          else (Inr (False, key, data),
                \<lparr>m_cursor = Cursor (Secondary P i) (Some q), m_key = Some mk,
                 m_type = BDB_RS_UNIQUE, m_isset = True\<rparr>, e))"
  using assms
  by (simp add: recordset_fetch_def fetch_status_def c_pget_def seek_def next_fault_def
      rs_type_defs status_defs unserialize_def split: list.splits)

lemma fetch_loop_unique_run:
  assumes "faults e = []" "db_content e (Secondary P i) = Some es"
  shows "drop q es = cur # rest \<Longrightarrow> fst cur = mk \<Longrightarrow>
     fst (fetch_loop n kc dc
           \<lparr>m_cursor = Cursor (Secondary P i) (Some q), m_key = Some mk, m_type = BDB_RS_UNIQUE,
            m_isset = True\<rparr> key data e) =
     (map (\<lambda>x. (ParseFromString kc (fst (snd x)), ParseFromString dc (snd (snd x))))
        (take n (takeWhile (\<lambda>x. fst x = mk) rest)),
      length (takeWhile (\<lambda>x. fst x = mk) rest) < n)"
proof (induction n arbitrary: q cur rest key data)
  case 0
  show ?case by simp
next
  case (Suc n)
  note f = fetch_unique_next[OF assms Suc.prems, of kc dc key data]
  show ?case
  proof (cases rest)
    case Nil
    with f have "recordset_fetch kc dc
           \<lparr>m_cursor = Cursor (Secondary P i) (Some q), m_key = Some mk, m_type = BDB_RS_UNIQUE,
            m_isset = True\<rparr> key data e =
          (Inr (False, key, data),
           \<lparr>m_cursor = Cursor (Secondary P i) (Some q), m_key = Some mk,
            m_type = BDB_RS_UNIQUE, m_isset = True\<rparr>, e)"
      by simp
    from fetch_loop_miss[OF this] Nil show ?thesis by simp
  next
    case (Cons y ys)
    show ?thesis
    proof (cases "fst y = mk")
      case False
      with f Cons have "recordset_fetch kc dc
           \<lparr>m_cursor = Cursor (Secondary P i) (Some q), m_key = Some mk, m_type = BDB_RS_UNIQUE,
            m_isset = True\<rparr> key data e =
          (Inr (False, key, data),
           \<lparr>m_cursor = Cursor (Secondary P i) (Some q), m_key = Some mk,
            m_type = BDB_RS_UNIQUE, m_isset = True\<rparr>, e)"
        by simp
      from fetch_loop_miss[OF this] Cons False show ?thesis by simp
    next
      case True
      from Suc.prems(1) Cons have d: "drop (Suc q) es = y # ys"
        by (metis drop_Suc list.sel(3) tl_drop)
      note ih = Suc.IH[OF d True, of "ParseFromString kc (fst (snd y))"
          "ParseFromString dc (snd (snd y))"]
      from f Cons True
      have hit: "recordset_fetch kc dc
           \<lparr>m_cursor = Cursor (Secondary P i) (Some q), m_key = Some mk, m_type = BDB_RS_UNIQUE,
            m_isset = True\<rparr> key data e =
          (Inr (True, ParseFromString kc (fst (snd y)), ParseFromString dc (snd (snd y))),
                \<lparr>m_cursor = Cursor (Secondary P i) (Some (Suc q)), m_key = Some mk,
                 m_type = BDB_RS_UNIQUE, m_isset = True\<rparr>, e)"
        by simp
      show ?thesis
        unfolding fetch_loop_hit[OF hit] ih using Cons True by simp
    qed
  qed
qed

lemma single_key_read:
  assumes "faults e = []" "m_type rs = BDB_RS_UNIQUE" "m_key rs = Some mk"
    "m_cursor rs = Cursor (Secondary P i) pos" "i < length (secs (dbs e P))"
  shows "fst (fetch_loop n kc dc (rs\<lparr>m_isset := False\<rparr>) key data e) =
     (map (\<lambda>(pk, pd). (ParseFromString kc pk, ParseFromString dc pd))
        (take n (filtered_records e rs)),
      length (filtered_records e rs) < n)"
proof -
  let ?es = "sec_entries (secs (dbs e P) ! i) (recs (dbs e P))"
  let ?P = "\<lambda>x. fst x = mk"
  let ?dec = "\<lambda>x. (ParseFromString kc (fst (snd x)), ParseFromString dc (snd (snd x)))"
  have c: "db_content e (Secondary P i) = Some ?es"
    using assms(5) by (simp add: db_content_def)
  have fr: "filtered_records e rs = map snd (filter ?P ?es)"
    using assms(3,4) c by (simp add: filtered_records_def)
  have dm: "map (\<lambda>(pk, pd). (ParseFromString kc pk, ParseFromString dc pd)) (take n (map snd xs))
      = map ?dec (take n xs)" for xs :: "(bytes \<times> bytes \<times> bytes) list"
    by (simp add: take_map split_beta)
  show ?thesis
  proof (cases n)
    case 0
    then show ?thesis by simp
  next
    case (Suc m)
    show ?thesis
    proof (cases "key_find mk ?es")
      case None
      then have e0: "filter ?P ?es = []" by (simp add: key_find_None)
      have "\<exists>rs' e'. recordset_fetch kc dc (rs\<lparr>m_isset := False\<rparr>) key data e
          = (Inr (False, key, data), rs', e')"
        using fetch_first_unique[OF assms(1,2,3,4) c, of kc dc key data] None
        by (cases "recordset_fetch kc dc (rs\<lparr>m_isset := False\<rparr>) key data e") auto
      then obtain rs' e' where "recordset_fetch kc dc (rs\<lparr>m_isset := False\<rparr>) key data e
          = (Inr (False, key, data), rs', e')"
        by blast
      from fetch_loop_miss[OF this, of m] Suc fr e0 show ?thesis by simp
    next
      case (Some jx)
      obtain j x where jx: "jx = (j, x)" by (cases jx)
      from Some jx have kf: "key_find mk ?es = Some (j, x)" by simp
      from key_find_drop[OF kf] obtain rest where d: "drop j ?es = x # rest" by blast
      from key_find_Some[OF kf] have fx: "fst x = mk" by simp
      have first: "recordset_fetch kc dc (rs\<lparr>m_isset := False\<rparr>) key data e =
          (Inr (True, ParseFromString kc (fst (snd x)), ParseFromString dc (snd (snd x))),
           \<lparr>m_cursor = Cursor (Secondary P i) (Some j), m_key = Some mk, m_type = BDB_RS_UNIQUE,
            m_isset = True\<rparr>, e)"
        using assms(1,2,3,4) c kf
        by (simp add: recordset_fetch_def fetch_status_def c_pget_def seek_def next_fault_def
            rs_type_defs status_defs unserialize_def)
      note run = fetch_loop_unique_run[OF assms(1) c d fx, of m kc dc
          "ParseFromString kc (fst (snd x))" "ParseFromString dc (snd (snd x))"]
      from key_find_dropWhile[OF kf] d
      have dw: "dropWhile (\<lambda>x. fst x \<noteq> mk) ?es = x # rest" by simp
      have "filter ?P ?es = takeWhile ?P (dropWhile (\<lambda>x. fst x \<noteq> mk) ?es)"
        by (rule sorted_filter_run[OF sorted_sec_entries])
      also have "\<dots> = takeWhile ?P (x # rest)" by (simp only: dw)
      also have "\<dots> = x # takeWhile ?P rest" using fx by simp
      finally have all: "filter ?P ?es = x # takeWhile ?P rest" .
      have "fst (fetch_loop (Suc m) kc dc (rs\<lparr>m_isset := False\<rparr>) key data e)
          = (?dec x # map ?dec (take m (takeWhile ?P rest)), length (takeWhile ?P rest) < m)"
        unfolding fetch_loop_hit[OF first] run by simp
      also have "\<dots> = (map ?dec (take (Suc m) (x # takeWhile ?P rest)),
          length (x # takeWhile ?P rest) < Suc m)"
        by simp
      also have "\<dots> = (map (\<lambda>(pk, pd). (ParseFromString kc pk, ParseFromString dc pd))
          (take (Suc m) (filtered_records e rs)), length (filtered_records e rs) < Suc m)"
        unfolding fr all[symmetric] by (simp add: take_map split_beta)
      finally show ?thesis using Suc by simp
    qed
  qed
qed

section \<open>What a join yields\<close>

text \<open>
  C3. For a join built from recordsets of indexes of one table, each filtered by a
  single key: if the intersection of the filtered sets is empty, and in particular if
  one of the recordsets matches no record, every fetch on the join returns false and
  raises nothing (the fetch leaves the recordset and the engine as they were, so the
  next fetch does the same); otherwise reading the join to its end yields exactly the
  records of the table that are in every filtered set, each once, and then false.
  That part is stated for an engine that does not fail on its own; that a fetch on a
  join raises nothing holds whatever the engine does.
\<close>

theorem join_yields_intersection:
  "(m_type rs = BDB_RS_JOIN
      \<longrightarrow> (\<exists>r. fst (recordset_fetch kc dc rs key data e2) = Inr r))
   \<and> (faults e = [] \<and> m_db tbl = Primary P \<and> lst \<noteq> [] \<and> (\<forall>p \<in> set lst. index_key_of e P (hp p))
   \<longrightarrow>
   (\<exists>j hp'. recordset_join tbl lst hp e = (Inr j, hp', e)
      \<and> ((\<exists>p \<in> set lst. filtered_records e (hp p) = [])
           \<longrightarrow> recordset_fetch kc dc j key data e = (Inr (False, key, data), j, e))
      \<and> (joined_records e P hp lst = []
           \<longrightarrow> recordset_fetch kc dc j key data e = (Inr (False, key, data), j, e))
      \<and> (\<forall>n. fst (fetch_loop n kc dc j key data e) =
             (map (\<lambda>(pk, pd). (ParseFromString kc pk, ParseFromString dc pd))
                (take n (joined_records e P hp lst)),
              length (joined_records e P hp lst) < n)))
   \<and> set (joined_records e P hp lst) = (\<Inter>p \<in> set lst. set (filtered_records e (hp p))))"
proof (rule conjI)
  show "m_type rs = BDB_RS_JOIN
      \<longrightarrow> (\<exists>r. fst (recordset_fetch kc dc rs key data e2) = Inr r)"
    by (auto simp: recordset_fetch_def fetch_status_def rs_type_defs
        split: prod.splits sum.splits)
next
  show "faults e = [] \<and> m_db tbl = Primary P \<and> lst \<noteq> [] \<and> (\<forall>p \<in> set lst. index_key_of e P (hp p))
   \<longrightarrow>
   (\<exists>j hp'. recordset_join tbl lst hp e = (Inr j, hp', e)
      \<and> ((\<exists>p \<in> set lst. filtered_records e (hp p) = [])
           \<longrightarrow> recordset_fetch kc dc j key data e = (Inr (False, key, data), j, e))
      \<and> (joined_records e P hp lst = []
           \<longrightarrow> recordset_fetch kc dc j key data e = (Inr (False, key, data), j, e))
      \<and> (\<forall>n. fst (fetch_loop n kc dc j key data e) =
             (map (\<lambda>(pk, pd). (ParseFromString kc pk, ParseFromString dc pd))
                (take n (joined_records e P hp lst)),
              length (joined_records e P hp lst) < n)))
   \<and> set (joined_records e P hp lst) = (\<Inter>p \<in> set lst. set (filtered_records e (hp p)))"
  proof (intro impI)
    assume a: "faults e = [] \<and> m_db tbl = Primary P \<and> lst \<noteq> []
        \<and> (\<forall>p \<in> set lst. index_key_of e P (hp p))"
    then have nf: "faults e = []" and tb: "m_db tbl = Primary P" and ne: "lst \<noteq> []"
      and ik: "\<forall>p \<in> set lst. index_key_of e P (hp p)"
      by auto
    let ?crit = "List.map_filter (join_criterion e P) (map (\<lambda>p. m_cursor (settle e (hp p))) lst)"
    let ?all = "list_all (\<lambda>p. filtered_records e (hp p) \<noteq> []) lst"
    let ?j = "\<lparr>m_cursor = JoinCursor P ?crit 0, m_key = None, m_type = BDB_RS_JOIN, m_isset = ?all\<rparr>"
    let ?hp' = "\<lambda>a. if a \<in> set lst then settle e (hp a) else hp a"
    let ?ms = "joined_records e P hp lst"
    let ?dec = "\<lambda>(pk, pd). (ParseFromString kc pk, ParseFromString dc pd)"
    have ctor: "recordset_join tbl lst hp e = (Inr ?j, ?hp', e)"
      using nf tb ne ik by (rule recordset_join_nofault)
    have props: "((\<exists>p \<in> set lst. filtered_records e (hp p) = [])
             \<longrightarrow> recordset_fetch kc dc ?j key data e = (Inr (False, key, data), ?j, e))
        \<and> (?ms = [] \<longrightarrow> recordset_fetch kc dc ?j key data e = (Inr (False, key, data), ?j, e))
        \<and> (\<forall>n. fst (fetch_loop n kc dc ?j key data e) = (map ?dec (take n ?ms), length ?ms < n))"
    proof (cases ?all)
      case True
      then have all': "\<forall>p \<in> set lst. index_key_of e P (hp p) \<and> filtered_records e (hp p) \<noteq> []"
        using ik by (simp add: list_all_iff)
      note fl = join_filter_is_joined[OF all']
      have j: "?j = \<lparr>m_cursor = JoinCursor P ?crit 0, m_key = None, m_type = BDB_RS_JOIN,
                     m_isset = True\<rparr>"
        using True by simp
      have 1: "\<not> (\<exists>p \<in> set lst. filtered_records e (hp p) = [])"
        using True by (simp add: list_all_iff)
      have 2: "recordset_fetch kc dc ?j key data e = (Inr (False, key, data), ?j, e)" if "?ms = []"
        unfolding j using that fetch_join[OF nf, of kc dc P ?crit 0 key data]
        by (simp add: fl)
      have 3: "fst (fetch_loop n kc dc ?j key data e) = (map ?dec (take n ?ms), length ?ms < n)" for n
        unfolding j using fetch_loop_join[OF nf, of n kc dc P ?crit 0 key data]
        by (simp add: fl)
      from 1 2 3 show ?thesis by blast
    next
      case False
      then obtain p where p: "p \<in> set lst" "filtered_records e (hp p) = []"
        by (auto simp: list_all_iff)
      then have ms: "?ms = []" by (rule joined_records_empty)
      have ty: "m_type ?j = BDB_RS_JOIN" "\<not> m_isset ?j" using False by simp_all
      have f: "recordset_fetch kc dc ?j key data e = (Inr (False, key, data), ?j, e)"
        using ty by (rule fetch_join_unset)
      have l: "fst (fetch_loop n kc dc ?j key data e) = (map ?dec (take n ?ms), length ?ms < n)" for n
        using fetch_loop_join_unset[OF ty, of n kc dc key data e] ms by simp
      from f l show ?thesis by blast
    qed
    have st: "set ?ms = (\<Inter>p \<in> set lst. set (filtered_records e (hp p)))"
      using ne ik by (rule joined_records_set)
    from ctor props st
    show "(\<exists>j hp'. recordset_join tbl lst hp e = (Inr j, hp', e)
        \<and> ((\<exists>p \<in> set lst. filtered_records e (hp p) = [])
             \<longrightarrow> recordset_fetch kc dc j key data e = (Inr (False, key, data), j, e))
        \<and> (joined_records e P hp lst = []
             \<longrightarrow> recordset_fetch kc dc j key data e = (Inr (False, key, data), j, e))
        \<and> (\<forall>n. fst (fetch_loop n kc dc j key data e) =
               (map (\<lambda>(pk, pd). (ParseFromString kc pk, ParseFromString dc pd))
                  (take n (joined_records e P hp lst)),
                length (joined_records e P hp lst) < n)))
     \<and> set (joined_records e P hp lst) = (\<Inter>p \<in> set lst. set (filtered_records e (hp p)))"
      by blast
  qed
qed

theorem join_yields_intersection_witness:
  "m_type rs_joined = BDB_RS_JOIN
   \<and> fst (recordset_fetch bytes_codec bytes_codec rs_joined '''' ''''
            (september_engine\<lparr>faults := [EIO]\<rparr>)) = Inr (False, '''', '''')
   \<and> faults september_engine = [] \<and> m_db tmonth = Primary 0
   \<and> index_key_of september_engine 0 (test_heap 0)
   \<and> index_key_of september_engine 0 (test_heap (Suc 0))
   \<and> index_key_of september_engine 0 (test_heap 2)
   \<and> joined_records september_engine 0 test_heap [0, Suc 0]
       = [(''November'', ''Autumn,30,11''), (''September'', ''Autumn,30,9'')]
   \<and> (\<exists>j hp'. recordset_join tmonth [0, Suc 0] test_heap september_engine
                 = (Inr j, hp', september_engine)
         \<and> fst (fetch_loop 3 bytes_codec bytes_codec j '''' '''' september_engine)
             = ([(''November'', ''Autumn,30,11''), (''September'', ''Autumn,30,9'')], True))
   \<and> filtered_records september_engine (test_heap 2) = []
   \<and> (\<exists>j hp'. recordset_join tmonth [0, 2] test_heap september_engine
                 = (Inr j, hp', september_engine)
         \<and> recordset_fetch bytes_codec bytes_codec j '''' '''' september_engine
             = (Inr (False, '''', ''''), j, september_engine))"
proof -
  have tj: "m_type rs_joined = BDB_RS_JOIN" by (simp add: rs_joined_def)
  from join_yields_intersection[where rs = rs_joined and kc = bytes_codec and dc = bytes_codec
      and key = "''''" and data = "''''" and ?e2.0 = "september_engine\<lparr>faults := [EIO]\<rparr>",
      THEN conjunct1, rule_format, OF tj]
  obtain r where r: "fst (recordset_fetch bytes_codec bytes_codec rs_joined '''' ''''
            (september_engine\<lparr>faults := [EIO]\<rparr>)) = Inr r"
    by blast
  have r0: "fst (recordset_fetch bytes_codec bytes_codec rs_joined '''' ''''
            (september_engine\<lparr>faults := [EIO]\<rparr>)) = Inr (False, '''', '''')"
    by (simp add: recordset_fetch_def fetch_status_def c_get_def next_fault_def rs_joined_def
        rs_type_defs EIO_def)
  have tm: "m_db tmonth = Primary 0" by (simp add: tmonth_def)
  have hyp1: "faults september_engine = [] \<and> m_db tmonth = Primary 0 \<and> [0, Suc 0] \<noteq> []
      \<and> (\<forall>p \<in> set [0, Suc 0]. index_key_of september_engine 0 (test_heap p))"
    by (simp add: september_faults tm september_indexed)
  have hyp2: "faults september_engine = [] \<and> m_db tmonth = Primary 0 \<and> [0, 2] \<noteq> []
      \<and> (\<forall>p \<in> set [0, 2]. index_key_of september_engine 0 (test_heap p))"
    by (simp add: september_faults tm september_indexed)
  from join_yields_intersection[where e = september_engine and tbl = tmonth and P = 0
      and lst = "[0, Suc 0]" and hp = test_heap and kc = bytes_codec and dc = bytes_codec
      and key = "''''" and data = "''''",
      THEN conjunct2, rule_format, OF hyp1, THEN conjunct1]
  obtain j hp' where
    c1: "recordset_join tmonth [0, Suc 0] test_heap september_engine = (Inr j, hp', september_engine)"
    and l1: "\<forall>n. fst (fetch_loop n bytes_codec bytes_codec j '''' '''' september_engine) =
             (map (\<lambda>(pk, pd). (ParseFromString bytes_codec pk, ParseFromString bytes_codec pd))
                (take n (joined_records september_engine 0 test_heap [0, Suc 0])),
              length (joined_records september_engine 0 test_heap [0, Suc 0]) < n)"
    by blast
  from l1[rule_format, of 3]
  have r1: "fst (fetch_loop 3 bytes_codec bytes_codec j '''' '''' september_engine)
             = ([(''November'', ''Autumn,30,11''), (''September'', ''Autumn,30,9'')], True)"
    by (simp add: september_joined bytes_codec_def)
  have in2: "\<exists>p \<in> set [0, 2::nat]. filtered_records september_engine (test_heap p) = []"
    by (simp add: september_filtered)
  from join_yields_intersection[where e = september_engine and tbl = tmonth and P = 0
      and lst = "[0, 2]" and hp = test_heap and kc = bytes_codec and dc = bytes_codec
      and key = "''''" and data = "''''",
      THEN conjunct2, rule_format, OF hyp2, THEN conjunct1] in2
  obtain j2 hp2 where
    c2: "recordset_join tmonth [0, 2] test_heap september_engine = (Inr j2, hp2, september_engine)"
    and f2: "recordset_fetch bytes_codec bytes_codec j2 '''' '''' september_engine
             = (Inr (False, '''', ''''), j2, september_engine)"
    by blast
  from c1 r1 have e1: "\<exists>j hp'. recordset_join tmonth [0, Suc 0] test_heap september_engine
                 = (Inr j, hp', september_engine)
         \<and> fst (fetch_loop 3 bytes_codec bytes_codec j '''' '''' september_engine)
             = ([(''November'', ''Autumn,30,11''), (''September'', ''Autumn,30,9'')], True)"
    by blast
  from c2 f2 have e2: "\<exists>j hp'. recordset_join tmonth [0, 2] test_heap september_engine
                 = (Inr j, hp', september_engine)
         \<and> recordset_fetch bytes_codec bytes_codec j '''' '''' september_engine
             = (Inr (False, '''', ''''), j, september_engine)"
    by blast
  from tj r r0 september_faults tm september_indexed september_joined(1) e1
    september_filtered(3) e2
  show ?thesis by blast
qed

end
